theory Spec2Isabelle
  imports Main
begin

section \<open>JavaScript strings\<close>

text \<open>
  Both implementations of the account lifecycle (the Express controller
  \<^verbatim>\<open>backend/src/controllers/auth.controller.js\<close> and the React context
  \<^verbatim>\<open>AuthContext.tsx\<close>) key every store by \<^verbatim>\<open>email.toLowerCase().trim()\<close>.
  Strings are modelled as lists of 8-bit characters, i.e. the Latin-1 range of JavaScript's
  code units; on that range \<^verbatim>\<open>toLowerCase\<close> maps A-Z and the accented capitals
  U+00C0..U+00DE (except the multiplication sign U+00D7) to the character 32 places further,
  and \<^verbatim>\<open>trim\<close> and the regular expression class \<^verbatim>\<open>\s\<close> treat TAB, LF, VT, FF, CR, SPACE
  and NBSP as white space.
\<close>

definition isWhiteSpace :: "char \<Rightarrow> bool" where
  "isWhiteSpace c = (of_char c \<in> {9, 10, 11, 12, 13, 32, 160 :: nat})"

definition toLowerCase_char :: "char \<Rightarrow> char" where
  "toLowerCase_char c =
     (let n = of_char c :: nat
      in if (65 \<le> n \<and> n \<le> 90) \<or> (192 \<le> n \<and> n \<le> 222 \<and> n \<noteq> 215)
         then char_of (n + 32) else c)"

definition toLowerCase :: "string \<Rightarrow> string" where
  "toLowerCase s = map toLowerCase_char s"

definition trim :: "string \<Rightarrow> string" where
  "trim s = rev (dropWhile isWhiteSpace (rev (dropWhile isWhiteSpace s)))"

text \<open>\<^verbatim>\<open>const normalizedEmail = email.toLowerCase().trim();\<close>\<close>

definition normalizeEmail :: "string \<Rightarrow> string" where
  "normalizeEmail email = trim (toLowerCase email)"

text \<open>
  \<^verbatim>\<open>const emailRegex = /^[^\s@]+@[^\s@]+\.[^\s@]+$/;\<close>
  A string matches when it is \<open>A @ B . C\<close> with \<open>A\<close>, \<open>B\<close>, \<open>C\<close> non-empty and free of
  white space and of \<open>@\<close>: the text before the first \<open>@\<close> is non-empty, the text after it
  holds no further \<open>@\<close>, no white space occurs anywhere, and some dot of the domain is
  neither its first nor its last character.
\<close>

definition emailRegex_test :: "string \<Rightarrow> bool" where
  "emailRegex_test s =
     (let local = takeWhile (\<lambda>c. c \<noteq> CHR ''@'') s;
          rest = dropWhile (\<lambda>c. c \<noteq> CHR ''@'') s
      in rest \<noteq> [] \<and> local \<noteq> [] \<and> \<not> list_ex isWhiteSpace local \<and>
         \<not> list_ex (\<lambda>c. isWhiteSpace c \<or> c = CHR ''@'') (tl rest) \<and>
         CHR ''.'' \<in> set (butlast (tl (tl rest))))"

text \<open>
  A field of a JSON request body may be absent; \<^verbatim>\<open>!field\<close> holds for an absent field and
  for the empty string.
\<close>

definition falsy :: "string option \<Rightarrow> bool" where
  "falsy field = (case field of None \<Rightarrow> True | Some s \<Rightarrow> s = [])"

definition str :: "string option \<Rightarrow> string" where
  "str field = (case field of None \<Rightarrow> [] | Some s \<Rightarrow> s)"


section \<open>The backend controller\<close>

subsection \<open>Data\<close>

text \<open>
  \<^verbatim>\<open>bcryptjs\<close> is an external library. It appends a zero byte to the UTF-8 encoding of
  the password and derives the digest from the first 72 bytes of that key, read cyclically
  (18 words of the Blowfish key schedule). A digest is represented by these 72 bytes and
  the cost it was computed with (the random salt is left out); \<^verbatim>\<open>bcrypt.compare\<close> accepts
  exactly the passwords that give the same 72 bytes.
\<close>

definition utf8 :: "string \<Rightarrow> nat list" where
  "utf8 s =
     concat (map (\<lambda>c. let n = of_char c :: nat
                       in if n < 128 then [n] else [192 + n div 64, 128 + n mod 64]) s)"

definition bcrypt_key :: "string \<Rightarrow> nat list" where
  "bcrypt_key password = take 72 (concat (replicate 72 (utf8 password @ [0])))"

datatype digest = Bcrypt (keystream: "nat list") (cost: nat)

definition bcrypt_hash :: "string \<Rightarrow> nat \<Rightarrow> digest" where
  "bcrypt_hash password rounds = Bcrypt (bcrypt_key password) rounds"

definition bcrypt_compare :: "string \<Rightarrow> digest \<Rightarrow> bool" where
  "bcrypt_compare password d = (bcrypt_key password = keystream d)"

text \<open>An element of the \<^verbatim>\<open>users\<close> array.\<close>

record srv_user =
  uid :: string
  email :: string
  password :: digest
  name :: string
  role :: string
  department :: string
  title :: string
  isVerified :: bool
  createdAt :: string

text \<open>A value of the \<^verbatim>\<open>pendingVerifications\<close> map.\<close>

record pending =
  token :: string
  expiry :: nat
  userId :: string

record srv_state =
  users :: "srv_user list"
  pendingVerifications :: "string \<rightharpoonup> pending"

text \<open>
  What a handler draws from its environment: \<^verbatim>\<open>Date.now()\<close> in milliseconds, the hex string
  of \<^verbatim>\<open>crypto.randomBytes(32)\<close>, the identifier
  \<^verbatim>\<open>`usr_${Date.now()}_${Math.random().toString(36).substr(2, 9)}`\<close>, the text of
  \<^verbatim>\<open>new Date().toISOString()\<close>, and the signing secret.
\<close>

record env =
  now :: nat
  randomHex :: string
  newUserId :: string
  isoNow :: string
  JWT_SECRET :: string

text \<open>
  The session token of \<^verbatim>\<open>jwt.sign({ userId, email, role }, JWT_SECRET, { expiresIn: '24h' })\<close>,
  represented by its claims and its key; \<^verbatim>\<open>iat\<close> and \<^verbatim>\<open>exp\<close> are in seconds.
\<close>

record jwt =
  jwt_userId :: string
  jwt_email :: string
  jwt_role :: string
  jwt_iat :: nat
  jwt_exp :: nat
  jwt_key :: string

definition jwt_sign :: "string \<Rightarrow> string \<Rightarrow> string \<Rightarrow> string \<Rightarrow> nat \<Rightarrow> jwt" where
  "jwt_sign ident mail rl secret ms =
     \<lparr>jwt_userId = ident, jwt_email = mail, jwt_role = rl,
      jwt_iat = ms div 1000, jwt_exp = ms div 1000 + 24 * 60 * 60, jwt_key = secret\<rparr>"

text \<open>
  A user object as the list of its own enumerable properties, in the order in which the
  object literals of the source create them.
\<close>

datatype jsval = JString string | JBool bool | JDigest digest

definition user_props :: "srv_user \<Rightarrow> (string \<times> jsval) list" where
  "user_props u =
     [(''id'', JString (uid u)), (''email'', JString (email u)),
      (''password'', JDigest (password u)), (''name'', JString (name u)),
      (''role'', JString (role u)), (''department'', JString (department u)),
      (''title'', JString (title u)), (''isVerified'', JBool (isVerified u)),
      (''createdAt'', JString (createdAt u))]"

text \<open>\<^verbatim>\<open>const { password: _, ...userData } = user;\<close>\<close>

definition rest_without :: "string \<Rightarrow> (string \<times> jsval) list \<Rightarrow> (string \<times> jsval) list" where
  "rest_without key props = filter (\<lambda>p. fst p \<noteq> key) props"

text \<open>The status and JSON body of a response.\<close>

record response =
  status :: nat
  success :: bool
  message :: string
  requiresVerification :: "bool option"
  res_token :: "jwt option"
  res_user :: "(string \<times> jsval) list option"

definition reply :: "nat \<Rightarrow> bool \<Rightarrow> string \<Rightarrow> response" where
  "reply code ok msg =
     \<lparr>status = code, success = ok, message = msg, requiresVerification = None,
      res_token = None, res_user = None\<rparr>"

text \<open>The three demo accounts the array starts with, and the empty map.\<close>

definition demo_users :: "srv_user list" where
  "demo_users =
     [\<lparr>uid = ''1'', email = ''operator@demo.com'', password = bcrypt_hash ''demo123'' 10,
       name = ''Alex Operator'', role = ''operator'', department = ''Operations'',
       title = ''Operations Specialist'', isVerified = True,
       createdAt = ''2024-01-15T00:00:00.000Z''\<rparr>,
      \<lparr>uid = ''2'', email = ''manager@demo.com'', password = bcrypt_hash ''demo123'' 10,
       name = ''Sarah Manager'', role = ''manager'', department = ''Management'',
       title = ''Team Manager'', isVerified = True,
       createdAt = ''2024-01-10T00:00:00.000Z''\<rparr>,
      \<lparr>uid = ''3'', email = ''director@demo.com'', password = bcrypt_hash ''demo123'' 10,
       name = ''James Director'', role = ''director'', department = ''Executive'',
       title = ''Director of Operations'', isVerified = True,
       createdAt = ''2024-01-01T00:00:00.000Z''\<rparr>]"

definition srv_init :: srv_state where
  "srv_init = \<lparr>users = demo_users, pendingVerifications = Map.empty\<rparr>"

text \<open>\<^verbatim>\<open>users.find(u => u.email === normalizedEmail)\<close>\<close>

definition find_user :: "srv_user list \<Rightarrow> string \<Rightarrow> srv_user option" where
  "find_user us n = find (\<lambda>u. email u = n) us"

text \<open>
  \<^verbatim>\<open>find\<close> returns a reference to the array element, so an assignment to a field of the
  result changes the first element with that email in place.
\<close>

fun update_first :: "('a \<Rightarrow> bool) \<Rightarrow> ('a \<Rightarrow> 'a) \<Rightarrow> 'a list \<Rightarrow> 'a list" where
  "update_first P f [] = []"
| "update_first P f (x # xs) = (if P x then f x # xs else x # update_first P f xs)"

subsection \<open>Handlers\<close>

text \<open>
  Each handler takes the state, the environment and the fields of \<^verbatim>\<open>req.body\<close>, and returns
  the new state and the response. The mock mail written to the console is not part of the
  state. With string fields no statement of a handler throws, so the \<^verbatim>\<open>catch\<close> branch
  (status 500) has no counterpart.
\<close>

definition signup ::
  "srv_state \<Rightarrow> env \<Rightarrow> string option \<Rightarrow> string option \<Rightarrow> string option
     \<Rightarrow> srv_state \<times> response" where
  "signup st e name_field email_field password_field =
     (if falsy name_field \<or> falsy email_field \<or> falsy password_field
      then (st, reply 400 False ''Name, email and password are required'')
      else if \<not> emailRegex_test (str email_field)
      then (st, reply 400 False ''Please enter a valid email address'')
      else if length (str password_field) < 6
      then (st, reply 400 False ''Password must be at least 6 characters'')
      else
        let normalizedEmail = normalizeEmail (str email_field) in
        case find_user (users st) normalizedEmail of
          Some existingUser \<Rightarrow>
            (st, reply 409 False ''An account with this email already exists'')
        | None \<Rightarrow>
            let hashedPassword = bcrypt_hash (str password_field) 12;
                verificationToken = randomHex e;
                tokenExpiry = now e + 24 * 60 * 60 * 1000;
                newUser = \<lparr>uid = newUserId e, email = normalizedEmail,
                           password = hashedPassword, name = trim (str name_field),
                           role = ''operator'', department = ''General'',
                           title = ''Team Member'', isVerified = False,
                           createdAt = isoNow e\<rparr>
            in (st\<lparr>pendingVerifications := (pendingVerifications st)
                      (normalizedEmail \<mapsto>
                         \<lparr>token = verificationToken, expiry = tokenExpiry,
                          userId = uid newUser\<rparr>),
                    users := users st @ [newUser]\<rparr>,
                (reply 201 True
                   ''Account created! Please check your email to verify your account.'')
                  \<lparr>requiresVerification := Some True\<rparr>))"

definition verifyEmail ::
  "srv_state \<Rightarrow> env \<Rightarrow> string option \<Rightarrow> string option \<Rightarrow> srv_state \<times> response" where
  "verifyEmail st e email_field token_field =
     (if falsy email_field \<or> falsy token_field
      then (st, reply 400 False ''Email and token are required'')
      else
        let normalizedEmail = normalizeEmail (str email_field) in
        case pendingVerifications st normalizedEmail of
          None \<Rightarrow> (st, reply 400 False ''Verification link is invalid or has expired'')
        | Some pend \<Rightarrow>
            if token pend \<noteq> str token_field
            then (st, reply 400 False ''Invalid verification token'')
            else if now e > expiry pend
            then (st\<lparr>pendingVerifications := (pendingVerifications st)(normalizedEmail := None)\<rparr>,
                  reply 400 False ''Verification link has expired. Please sign up again.'')
            else
              (st\<lparr>users := update_first (\<lambda>u. email u = normalizedEmail)
                               (\<lambda>u. u\<lparr>isVerified := True\<rparr>) (users st),
                  pendingVerifications := (pendingVerifications st)(normalizedEmail := None)\<rparr>,
               reply 200 True ''Email verified successfully! You can now log in.''))"

definition resendVerification ::
  "srv_state \<Rightarrow> env \<Rightarrow> string option \<Rightarrow> srv_state \<times> response" where
  "resendVerification st e email_field =
     (if falsy email_field
      then (st, reply 400 False ''Email is required'')
      else
        let normalizedEmail = normalizeEmail (str email_field) in
        case find_user (users st) normalizedEmail of
          None \<Rightarrow> (st, reply 404 False ''No account found with this email'')
        | Some u \<Rightarrow>
            if isVerified u
            then (st, reply 400 False ''This email is already verified'')
            else
              (st\<lparr>pendingVerifications := (pendingVerifications st)
                     (normalizedEmail \<mapsto>
                        \<lparr>token = randomHex e, expiry = now e + 24 * 60 * 60 * 1000,
                         userId = uid u\<rparr>)\<rparr>,
               reply 200 True ''Verification email sent! Please check your inbox.''))"

definition login ::
  "srv_state \<Rightarrow> env \<Rightarrow> string option \<Rightarrow> string option \<Rightarrow> srv_state \<times> response" where
  "login st e email_field password_field =
     (if falsy email_field \<or> falsy password_field
      then (st, reply 400 False ''Email and password are required'')
      else
        let normalizedEmail = normalizeEmail (str email_field) in
        case find_user (users st) normalizedEmail of
          None \<Rightarrow> (st, reply 401 False ''No account found with this email'')
        | Some u \<Rightarrow>
            if \<not> isVerified u
            then (st, (reply 403 False ''Please verify your email before logging in'')
                        \<lparr>requiresVerification := Some True\<rparr>)
            else if \<not> bcrypt_compare (str password_field) (password u)
            then (st, reply 401 False ''Incorrect password'')
            else
              (st, (reply 200 True ''Login successful'')
                     \<lparr>res_token := Some (jwt_sign (uid u) (email u) (role u)
                                           (JWT_SECRET e) (now e)),
                      res_user := Some (rest_without ''password'' (user_props u))\<rparr>))"

definition requestPasswordReset ::
  "srv_state \<Rightarrow> env \<Rightarrow> string option \<Rightarrow> srv_state \<times> response" where
  "requestPasswordReset st e email_field =
     (if falsy email_field
      then (st, reply 400 False ''Email is required'')
      else
        let normalizedEmail = normalizeEmail (str email_field) in
        case find_user (users st) normalizedEmail of
          None \<Rightarrow>
            (st, reply 200 True
                   ''If an account exists with this email, you will receive a reset link.'')
        | Some u \<Rightarrow>
            (st\<lparr>pendingVerifications := (pendingVerifications st)
                   (''reset_'' @ normalizedEmail \<mapsto>
                      \<lparr>token = randomHex e, expiry = now e + 60 * 60 * 1000,
                       userId = uid u\<rparr>)\<rparr>,
             reply 200 True
               ''If an account exists with this email, you will receive a reset link.''))"

definition validateResetToken ::
  "srv_state \<Rightarrow> env \<Rightarrow> string option \<Rightarrow> string option \<Rightarrow> srv_state \<times> response" where
  "validateResetToken st e email_field token_field =
     (if falsy email_field \<or> falsy token_field
      then (st, reply 400 False ''Email and token are required'')
      else
        let normalizedEmail = normalizeEmail (str email_field) in
        case pendingVerifications st (''reset_'' @ normalizedEmail) of
          None \<Rightarrow> (st, reply 400 False ''Invalid or expired reset link'')
        | Some pend \<Rightarrow>
            if token pend \<noteq> str token_field
            then (st, reply 400 False ''Invalid reset token'')
            else if now e > expiry pend
            then (st\<lparr>pendingVerifications :=
                       (pendingVerifications st)(''reset_'' @ normalizedEmail := None)\<rparr>,
                  reply 400 False ''Reset link has expired'')
            else (st, reply 200 True ''Token is valid''))"

definition resetPassword ::
  "srv_state \<Rightarrow> env \<Rightarrow> string option \<Rightarrow> string option \<Rightarrow> string option
     \<Rightarrow> srv_state \<times> response" where
  "resetPassword st e email_field token_field newPassword_field =
     (if falsy email_field \<or> falsy token_field \<or> falsy newPassword_field
      then (st, reply 400 False ''Email, token and new password are required'')
      else if length (str newPassword_field) < 6
      then (st, reply 400 False ''Password must be at least 6 characters'')
      else
        let normalizedEmail = normalizeEmail (str email_field) in
        case pendingVerifications st (''reset_'' @ normalizedEmail) of
          None \<Rightarrow> (st, reply 400 False ''Invalid or expired reset link'')
        | Some pend \<Rightarrow>
            if token pend \<noteq> str token_field
            then (st, reply 400 False ''Invalid reset token'')
            else if now e > expiry pend
            then (st\<lparr>pendingVerifications :=
                       (pendingVerifications st)(''reset_'' @ normalizedEmail := None)\<rparr>,
                  reply 400 False ''Reset link has expired'')
            else
              (st\<lparr>users := update_first (\<lambda>u. email u = normalizedEmail)
                               (\<lambda>u. u\<lparr>password := bcrypt_hash (str newPassword_field) 12\<rparr>)
                               (users st),
                  pendingVerifications :=
                    (pendingVerifications st)(''reset_'' @ normalizedEmail := None)\<rparr>,
               reply 200 True ''Password has been reset successfully''))"


section \<open>The client-side context\<close>

subsection \<open>Roles and permissions\<close>

datatype UserRole = Operator | Manager | Director

datatype Permission =
    view_dashboard | view_tasks | create_tasks | edit_tasks | delete_tasks | assign_tasks
  | view_team | manage_team | view_performance | manage_performance
  | view_assessments | create_assessments | edit_assessments
  | view_reports | create_reports | edit_reports | export_reports
  | view_settings | manage_settings | view_all_data | manage_organization

fun ROLE_PERMISSIONS :: "UserRole \<Rightarrow> Permission list" where
  "ROLE_PERMISSIONS Operator =
     [view_dashboard, view_tasks, view_performance, view_assessments, view_settings]"
| "ROLE_PERMISSIONS Manager =
     [view_dashboard, view_tasks, create_tasks, edit_tasks, assign_tasks, view_team,
      manage_team, view_performance, manage_performance, view_assessments,
      create_assessments, edit_assessments, view_reports, create_reports, edit_reports,
      view_settings]"
| "ROLE_PERMISSIONS Director =
     [view_dashboard, view_tasks, create_tasks, edit_tasks, delete_tasks, assign_tasks,
      view_team, manage_team, view_performance, manage_performance, view_assessments,
      create_assessments, edit_assessments, view_reports, create_reports, edit_reports,
      export_reports, view_settings, manage_settings, view_all_data, manage_organization]"

subsection \<open>Data\<close>

text \<open>
  \<^verbatim>\<open>btoa\<close>, the browser's base-64 encoder, on strings of 8-bit characters (it throws on any
  other character, which this string type does not have).
\<close>

definition b64_digit :: "nat \<Rightarrow> char" where
  "b64_digit n =
     ''ABCDEFGHIJKLMNOPQRSTUVWXYZabcdefghijklmnopqrstuvwxyz0123456789+/'' ! (n mod 64)"

fun btoa_bytes :: "nat list \<Rightarrow> string" where
  "btoa_bytes (a # b # c # rest) =
     b64_digit (a div 4) # b64_digit (a mod 4 * 16 + b div 16) #
     b64_digit (b mod 16 * 4 + c div 64) # b64_digit (c mod 64) # btoa_bytes rest"
| "btoa_bytes [a, b] =
     [b64_digit (a div 4), b64_digit (a mod 4 * 16 + b div 16), b64_digit (b mod 16 * 4),
      CHR ''='']"
| "btoa_bytes [a] = [b64_digit (a div 4), b64_digit (a mod 4 * 16), CHR ''='', CHR ''='']"
| "btoa_bytes [] = []"

definition btoa :: "string \<Rightarrow> string" where
  "btoa s = btoa_bytes (map of_char s)"

text \<open>\<^verbatim>\<open>return btoa(password + "_flowdash_salt_2024");\<close>\<close>

definition hashPassword :: "string \<Rightarrow> string" where
  "hashPassword pw = btoa (pw @ ''_flowdash_salt_2024'')"

text \<open>The interface \<^verbatim>\<open>User\<close>; a field marked \<^verbatim>\<open>?\<close> may be absent.\<close>

record User =
  user_id :: string
  user_email :: string
  user_name :: string
  user_role :: UserRole
  user_avatar :: "string option"
  user_department :: "string option"
  user_title :: "string option"
  user_isVerified :: "bool option"
  user_createdAt :: "string option"

record StoredUser =
  hashedPassword :: string
  user :: User
  verificationToken :: "string option"

text \<open>The values of the two token stores kept in \<^verbatim>\<open>localStorage\<close>.\<close>

record pendingVerification =
  pv_token :: string
  pv_email :: string
  pv_expiresAt :: nat

record resetToken =
  rt_token :: string
  rt_expiresAt :: nat

text \<open>
  \<^verbatim>\<open>generateToken(userId, role)\<close> is \<^verbatim>\<open>btoa(JSON.stringify(payload))\<close>; the session token is
  represented by its payload.
\<close>

record session =
  s_userId :: string
  s_role :: UserRole
  s_iat :: nat
  s_exp :: nat

definition generateToken :: "nat \<Rightarrow> string \<Rightarrow> UserRole \<Rightarrow> session" where
  "generateToken ms ident rl =
     \<lparr>s_userId = ident, s_role = rl, s_iat = ms, s_exp = ms + 24 * 60 * 60 * 1000\<rparr>"

text \<open>
  The state of the context: the three stores under the \<^verbatim>\<open>localStorage\<close> keys
  \<^verbatim>\<open>flowdash_registered_users\<close>, \<^verbatim>\<open>flowdash_pending_verifications\<close> and
  \<^verbatim>\<open>flowdash_password_reset_tokens\<close> (a missing or unreadable item reads as the empty
  object), the persisted session under \<^verbatim>\<open>STORAGE_KEYS\<close>, and the React state
  \<^verbatim>\<open>user\<close> and \<^verbatim>\<open>token\<close>. The \<^verbatim>\<open>loading\<close> flag of the user interface is left out.
\<close>

record ctx_state =
  registeredUsers :: "string \<rightharpoonup> StoredUser"
  pendingStore :: "string \<rightharpoonup> pendingVerification"
  passwordResetTokens :: "string \<rightharpoonup> resetToken"
  ls_user :: "User option"
  ls_token :: "session option"
  ls_role :: "UserRole option"
  state_user :: "User option"
  state_token :: "session option"

text \<open>
  What a call draws from its environment: \<^verbatim>\<open>Date.now()\<close>, the token of
  \<^verbatim>\<open>generateVerificationToken()\<close>, the identifier of the new user and the text of
  \<^verbatim>\<open>new Date().toISOString()\<close>.
\<close>

record ctx_env =
  c_now :: nat
  c_randomToken :: string
  c_newUserId :: string
  c_isoNow :: string

text \<open>The results \<^verbatim>\<open>SignupResult\<close>, \<^verbatim>\<open>LoginResult\<close>, \<^verbatim>\<open>VerifyResult\<close>, \<^verbatim>\<open>PasswordResetResult\<close>.\<close>

record result =
  r_success :: bool
  r_error :: "string option"
  r_requiresVerification :: "bool option"

definition succeed :: result where
  "succeed = \<lparr>r_success = True, r_error = None, r_requiresVerification = None\<rparr>"

definition fail :: "string \<Rightarrow> result" where
  "fail msg = \<lparr>r_success = False, r_error = Some msg, r_requiresVerification = None\<rparr>"

text \<open>
  The stores are plain JavaScript objects indexed by the normalised email, so a lookup
  \<^verbatim>\<open>obj[key]\<close> also finds what \<^verbatim>\<open>Object.prototype\<close> provides: for one of its property names
  that is not an own property the lookup yields a function (or, for \<^verbatim>\<open>__proto__\<close>, the
  prototype object), which is truthy and has none of the fields of an entry. An assignment
  \<^verbatim>\<open>obj[key] = v\<close> creates an own property, except for the key \<^verbatim>\<open>__proto__\<close> when it
  is not an own property already: there the setter replaces the prototype and
  \<^verbatim>\<open>JSON.stringify\<close> writes the object back unchanged.
\<close>

definition Object_prototype_keys :: "string list" where
  "Object_prototype_keys =
     [''constructor'', ''__defineGetter__'', ''__defineSetter__'', ''hasOwnProperty'',
      ''__lookupGetter__'', ''__lookupSetter__'', ''isPrototypeOf'',
      ''propertyIsEnumerable'', ''toString'', ''valueOf'', ''__proto__'',
      ''toLocaleString'']"

datatype 'a property = Missing | Inherited | Own 'a

definition js_get :: "(string \<rightharpoonup> 'a) \<Rightarrow> string \<Rightarrow> 'a property" where
  "js_get obj key =
     (case obj key of
        Some v \<Rightarrow> Own v
      | None \<Rightarrow> if key \<in> set Object_prototype_keys then Inherited else Missing)"

definition js_set :: "(string \<rightharpoonup> 'a) \<Rightarrow> string \<Rightarrow> 'a \<Rightarrow> (string \<rightharpoonup> 'a)" where
  "js_set obj key v = (if key = ''__proto__'' \<and> obj key = None then obj else obj(key \<mapsto> v))"

definition js_delete :: "(string \<rightharpoonup> 'a) \<Rightarrow> string \<Rightarrow> (string \<rightharpoonup> 'a)" where
  "js_delete obj key = obj(key := None)"

definition truthy :: "'a property \<Rightarrow> bool" where
  "truthy p = (p \<noteq> Missing)"

definition DEMO_USERS :: "string \<rightharpoonup> StoredUser" where
  "DEMO_USERS =
     [''operator@demo.com'' \<mapsto>
        \<lparr>hashedPassword = hashPassword ''demo123'',
         user = \<lparr>user_id = ''usr_op_001'', user_email = ''operator@demo.com'',
                 user_name = ''Alex Thompson'', user_role = Operator, user_avatar = None,
                 user_department = Some ''Engineering'',
                 user_title = Some ''Software Developer'', user_isVerified = Some True,
                 user_createdAt = Some ''2024-01-15T10:00:00Z''\<rparr>,
         verificationToken = None\<rparr>,
      ''manager@demo.com'' \<mapsto>
        \<lparr>hashedPassword = hashPassword ''demo123'',
         user = \<lparr>user_id = ''usr_mgr_001'', user_email = ''manager@demo.com'',
                 user_name = ''Sarah Mitchell'', user_role = Manager, user_avatar = None,
                 user_department = Some ''Engineering'',
                 user_title = Some ''Engineering Manager'', user_isVerified = Some True,
                 user_createdAt = Some ''2024-01-10T10:00:00Z''\<rparr>,
         verificationToken = None\<rparr>,
      ''director@demo.com'' \<mapsto>
        \<lparr>hashedPassword = hashPassword ''demo123'',
         user = \<lparr>user_id = ''usr_dir_001'', user_email = ''director@demo.com'',
                 user_name = ''Michael Chen'', user_role = Director, user_avatar = None,
                 user_department = Some ''Technology'',
                 user_title = Some ''VP of Engineering'', user_isVerified = Some True,
                 user_createdAt = Some ''2024-01-01T10:00:00Z''\<rparr>,
         verificationToken = None\<rparr>]"

definition ctx_init :: ctx_state where
  "ctx_init =
     \<lparr>registeredUsers = Map.empty, pendingStore = Map.empty,
      passwordResetTokens = Map.empty, ls_user = None, ls_token = None, ls_role = None,
      state_user = None, state_token = None\<rparr>"


subsection \<open>Operations\<close>

text \<open>
  Each operation takes the state, the environment and its arguments (strings, as the
  TypeScript signature has them) and returns the new state and the result. Where a
  statement dereferences a field of \<^verbatim>\<open>undefined\<close> the \<^verbatim>\<open>catch\<close> branch of the operation
  answers \<^verbatim>\<open>"An unexpected error occurred"\<close>; nothing has been saved at that point.
\<close>

definition ctx_signup ::
  "ctx_state \<Rightarrow> ctx_env \<Rightarrow> string \<Rightarrow> string \<Rightarrow> string \<Rightarrow> ctx_state \<times> result" where
  "ctx_signup st e nm mail pw =
     (let normalizedEmail = normalizeEmail mail in
      if truthy (js_get DEMO_USERS normalizedEmail)
      then (st, fail ''An account with this email already exists'')
      else if truthy (js_get (registeredUsers st) normalizedEmail)
      then (st, fail ''An account with this email already exists'')
      else if length pw < 6
      then (st, fail ''Password must be at least 6 characters'')
      else
        let verificationTok = c_randomToken e;
            expiresAt = c_now e + 24 * 60 * 60 * 1000;
            newUser = \<lparr>user_id = c_newUserId e, user_email = normalizedEmail,
                       user_name = trim nm, user_role = Operator, user_avatar = None,
                       user_department = Some ''General'', user_title = Some ''Team Member'',
                       user_isVerified = Some False, user_createdAt = Some (c_isoNow e)\<rparr>
        in (st\<lparr>registeredUsers := js_set (registeredUsers st) normalizedEmail
                   \<lparr>hashedPassword = hashPassword pw, user = newUser,
                    verificationToken = Some verificationTok\<rparr>,
                pendingStore := js_set (pendingStore st) normalizedEmail
                   \<lparr>pv_token = verificationTok, pv_email = normalizedEmail,
                    pv_expiresAt = expiresAt\<rparr>\<rparr>,
            succeed\<lparr>r_requiresVerification := Some True\<rparr>))"

definition ctx_verifyEmail ::
  "ctx_state \<Rightarrow> ctx_env \<Rightarrow> string \<Rightarrow> string \<Rightarrow> ctx_state \<times> result" where
  "ctx_verifyEmail st e mail tok =
     (let normalizedEmail = normalizeEmail mail in
      case js_get (pendingStore st) normalizedEmail of
        Missing \<Rightarrow> (st, fail ''Verification link is invalid or has expired'')
      | Inherited \<Rightarrow> (st, fail ''Invalid verification token'')
      | Own pend \<Rightarrow>
          if pv_token pend \<noteq> tok
          then (st, fail ''Invalid verification token'')
          else if c_now e > pv_expiresAt pend
          then (st\<lparr>pendingStore := js_delete (pendingStore st) normalizedEmail\<rparr>,
                fail ''Verification link has expired. Please sign up again.'')
          else
            (case js_get (registeredUsers st) normalizedEmail of
               Inherited \<Rightarrow> (st, fail ''An unexpected error occurred'')
             | Own su \<Rightarrow>
                 (st\<lparr>registeredUsers := (registeredUsers st)
                        (normalizedEmail \<mapsto>
                           su\<lparr>user := (user su)\<lparr>user_isVerified := Some True\<rparr>,
                              verificationToken := None\<rparr>),
                     pendingStore := js_delete (pendingStore st) normalizedEmail\<rparr>,
                  succeed)
             | Missing \<Rightarrow>
                 (st\<lparr>pendingStore := js_delete (pendingStore st) normalizedEmail\<rparr>,
                  succeed)))"

text \<open>
  \<^verbatim>\<open>let demoUser = DEMO_USERS[normalizedEmail]; if (!demoUser) { demoUser =
  registeredUsers[normalizedEmail]; }\<close>
\<close>

definition lookup_account :: "ctx_state \<Rightarrow> string \<Rightarrow> StoredUser property" where
  "lookup_account st normalizedEmail =
     (case js_get DEMO_USERS normalizedEmail of
        Missing \<Rightarrow> js_get (registeredUsers st) normalizedEmail
      | found \<Rightarrow> found)"

definition ctx_login ::
  "ctx_state \<Rightarrow> ctx_env \<Rightarrow> string \<Rightarrow> string \<Rightarrow> ctx_state \<times> result" where
  "ctx_login st e mail pw =
     (let normalizedEmail = normalizeEmail mail in
      case lookup_account st normalizedEmail of
        Missing \<Rightarrow> (st, fail ''No account found with this email'')
      | Inherited \<Rightarrow> (st, fail ''An unexpected error occurred'')
      | Own demoUser \<Rightarrow>
          if user_isVerified (user demoUser) = Some False
          then (st, (fail ''Please verify your email before logging in'')
                      \<lparr>r_requiresVerification := Some True\<rparr>)
          else if hashPassword pw \<noteq> hashedPassword demoUser
          then (st, fail ''Incorrect password'')
          else
            let newToken = generateToken (c_now e) (user_id (user demoUser))
                             (user_role (user demoUser))
            in (st\<lparr>ls_user := Some (user demoUser), ls_token := Some newToken,
                    ls_role := Some (user_role (user demoUser)),
                    state_user := Some (user demoUser), state_token := Some newToken\<rparr>,
                succeed))"

definition ctx_requestPasswordReset ::
  "ctx_state \<Rightarrow> ctx_env \<Rightarrow> string \<Rightarrow> ctx_state \<times> result" where
  "ctx_requestPasswordReset st e mail =
     (let normalizedEmail = normalizeEmail mail;
          userExists = (truthy (js_get DEMO_USERS normalizedEmail) \<or>
                        truthy (js_get (registeredUsers st) normalizedEmail))
      in if \<not> userExists
         then (st, fail ''No account found with this email'')
         else
           (st\<lparr>passwordResetTokens := js_set (passwordResetTokens st) normalizedEmail
                  \<lparr>rt_token = c_randomToken e, rt_expiresAt = c_now e + 60 * 60 * 1000\<rparr>\<rparr>,
            succeed))"

definition ctx_validateResetToken ::
  "ctx_state \<Rightarrow> ctx_env \<Rightarrow> string \<Rightarrow> string \<Rightarrow> ctx_state \<times> result" where
  "ctx_validateResetToken st e mail tok =
     (let normalizedEmail = normalizeEmail mail in
      case js_get (passwordResetTokens st) normalizedEmail of
        Missing \<Rightarrow> (st, fail ''Invalid or expired reset link'')
      | Inherited \<Rightarrow> (st, fail ''Invalid reset token'')
      | Own stored \<Rightarrow>
          if rt_token stored \<noteq> tok
          then (st, fail ''Invalid reset token'')
          else if c_now e > rt_expiresAt stored
          then (st\<lparr>passwordResetTokens :=
                     js_delete (passwordResetTokens st) normalizedEmail\<rparr>,
                fail ''Reset link has expired'')
          else (st, succeed))"

definition ctx_resetPassword ::
  "ctx_state \<Rightarrow> ctx_env \<Rightarrow> string \<Rightarrow> string \<Rightarrow> string \<Rightarrow> ctx_state \<times> result" where
  "ctx_resetPassword st e mail tok newPassword =
     (let normalizedEmail = normalizeEmail mail;
          (st1, tokenValidation) = ctx_validateResetToken st e normalizedEmail tok
      in if \<not> r_success tokenValidation
         then (st1, \<lparr>r_success = False, r_error = r_error tokenValidation,
                     r_requiresVerification = None\<rparr>)
         else if length newPassword < 6
         then (st1, fail ''Password must be at least 6 characters'')
         else
           let st2 = (case js_get (registeredUsers st1) normalizedEmail of
                        Own su \<Rightarrow>
                          st1\<lparr>registeredUsers := (registeredUsers st1)
                                (normalizedEmail \<mapsto>
                                   su\<lparr>hashedPassword := hashPassword newPassword\<rparr>)\<rparr>
                      | Inherited \<Rightarrow> st1
                      | Missing \<Rightarrow> st1)
           in (st2\<lparr>passwordResetTokens :=
                     js_delete (passwordResetTokens st2) normalizedEmail\<rparr>,
               succeed))"

text \<open>
  \<^verbatim>\<open>if (!user) return false; return ROLE_PERMISSIONS[user.role]?.includes(permission) ??
  false;\<close> and \<^verbatim>\<open>return roles.includes(user.role);\<close>
\<close>

definition hasPermission :: "User option \<Rightarrow> Permission \<Rightarrow> bool" where
  "hasPermission current permission =
     (case current of
        None \<Rightarrow> False
      | Some u \<Rightarrow> permission \<in> set (ROLE_PERMISSIONS (user_role u)))"

definition canAccess :: "User option \<Rightarrow> UserRole list \<Rightarrow> bool" where
  "canAccess current roles =
     (case current of None \<Rightarrow> False | Some u \<Rightarrow> user_role u \<in> set roles)"


section \<open>Example inputs\<close>

text \<open>
  Concrete environments and states for the examples below: a token of each kind, an
  environment at a given time, and states reached from the initial ones by the handlers.
\<close>

definition example_hex :: string where
  "example_hex = ''9f86d081884c7d659a2feaa0c55ad015a3bf4f1b2b0b822cd15d6c15b0f00a08''"

definition example_b64 :: string where
  "example_b64 = ''MC40Z2s5bHgybG9wZDFsb3h5cjUy''"

definition example_env :: "nat \<Rightarrow> env" where
  "example_env t =
     \<lparr>now = t, randomHex = example_hex, newUserId = ''usr_1700000000000_k3j9x2m1q'',
      isoNow = ''2023-11-14T22:13:20.000Z'', JWT_SECRET = ''fallback-secret-key''\<rparr>"

definition example_ctx_env :: "nat \<Rightarrow> ctx_env" where
  "example_ctx_env t =
     \<lparr>c_now = t, c_randomToken = example_b64, c_newUserId = ''usr_1700000000000_k3j9x2m1q'',
      c_isoNow = ''2023-11-14T22:13:20.000Z''\<rparr>"

text \<open>The states after a reset request for a demo account, made at time 1700000000000.\<close>

definition srv_reset_requested :: srv_state where
  "srv_reset_requested =
     fst (requestPasswordReset srv_init (example_env 1700000000000) (Some ''operator@demo.com''))"

definition ctx_reset_requested :: ctx_state where
  "ctx_reset_requested =
     fst (ctx_requestPasswordReset ctx_init (example_ctx_env 1700000000000) ''operator@demo.com'')"

text \<open>The states after \<^verbatim>\<open>signup("Jane", "jane@x.com", "secret1")\<close> at the same time.\<close>

definition srv_signed_up :: srv_state where
  "srv_signed_up =
     fst (signup srv_init (example_env 1700000000000)
            (Some ''Jane'') (Some ''jane@x.com'') (Some ''secret1''))"

definition ctx_signed_up :: ctx_state where
  "ctx_signed_up =
     fst (ctx_signup ctx_init (example_ctx_env 1700000000000) ''Jane'' ''jane@x.com'' ''secret1'')"



text \<open>The account that this signup creates, in the controller and in the context.\<close>

definition jane :: srv_user where
  "jane =
     \<lparr>uid = ''usr_1700000000000_k3j9x2m1q'', email = ''jane@x.com'',
      password = bcrypt_hash ''secret1'' 12, name = ''Jane'', role = ''operator'',
      department = ''General'', title = ''Team Member'', isVerified = False,
      createdAt = ''2023-11-14T22:13:20.000Z''\<rparr>"

definition ctx_jane :: StoredUser where
  "ctx_jane =
     \<lparr>hashedPassword = hashPassword ''secret1'',
      user = \<lparr>user_id = ''usr_1700000000000_k3j9x2m1q'', user_email = ''jane@x.com'',
              user_name = ''Jane'', user_role = Operator, user_avatar = None,
              user_department = Some ''General'', user_title = Some ''Team Member'',
              user_isVerified = Some False,
              user_createdAt = Some ''2023-11-14T22:13:20.000Z''\<rparr>,
      verificationToken = Some example_b64\<rparr>"


text \<open>The manager of the demo data, in the controller and in the context.\<close>

definition srv_manager :: srv_user where
  "srv_manager =
     \<lparr>uid = ''2'', email = ''manager@demo.com'', password = bcrypt_hash ''demo123'' 10,
      name = ''Sarah Manager'', role = ''manager'', department = ''Management'',
      title = ''Team Manager'', isVerified = True, createdAt = ''2024-01-10T00:00:00.000Z''\<rparr>"

definition ctx_manager :: StoredUser where
  "ctx_manager =
     \<lparr>hashedPassword = hashPassword ''demo123'',
      user = \<lparr>user_id = ''usr_mgr_001'', user_email = ''manager@demo.com'',
              user_name = ''Sarah Mitchell'', user_role = Manager, user_avatar = None,
              user_department = Some ''Engineering'',
              user_title = Some ''Engineering Manager'', user_isVerified = Some True,
              user_createdAt = Some ''2024-01-10T10:00:00Z''\<rparr>,
      verificationToken = None\<rparr>"

text \<open>
  The controller state after a signup with the email \<^verbatim>\<open>reset_jane@x.com\<close>: its verification
  entry has the key that the reset entry of \<^verbatim>\<open>jane@x.com\<close> would have.
\<close>

definition srv_clash :: srv_state where
  "srv_clash =
     fst (signup srv_init (example_env 1700000000000)
            (Some ''Jane'') (Some ''reset_jane@x.com'') (Some ''secret1''))"


section \<open>Properties of the string functions\<close>

lemma isWhiteSpace_toLowerCase_char: "isWhiteSpace (toLowerCase_char c) = isWhiteSpace c"
  unfolding isWhiteSpace_def toLowerCase_char_def Let_def by auto

lemma toLowerCase_char_idem: "toLowerCase_char (toLowerCase_char c) = toLowerCase_char c"
  unfolding toLowerCase_char_def Let_def by auto

lemma toLowerCase_idem: "toLowerCase (toLowerCase s) = toLowerCase s"
  by (simp add: toLowerCase_def toLowerCase_char_idem)

lemma dropWhile_ws_toLowerCase:
  "dropWhile isWhiteSpace (toLowerCase s) = toLowerCase (dropWhile isWhiteSpace s)"
  by (induction s) (simp_all add: toLowerCase_def isWhiteSpace_toLowerCase_char)

lemma toLowerCase_rev: "toLowerCase (rev s) = rev (toLowerCase s)"
  by (simp add: toLowerCase_def rev_map)

lemma trim_toLowerCase: "trim (toLowerCase s) = toLowerCase (trim s)"
  by (simp add: trim_def dropWhile_ws_toLowerCase toLowerCase_rev [symmetric])

lemma dropWhile_rev_dropWhile:
  "dropWhile P (rev (dropWhile P (rev (dropWhile P s)))) =
   rev (dropWhile P (rev (dropWhile P s)))"
proof (cases "dropWhile P s")
  case Nil
  show ?thesis unfolding Nil by simp
next
  case (Cons x xs)
  then have nx: "\<not> P x"
    by (metis hd_dropWhile list.sel(1) list.distinct(1))
  show ?thesis unfolding Cons using nx by (simp add: dropWhile_append3)
qed

lemma trim_idem: "trim (trim s) = trim s"
  by (simp add: trim_def dropWhile_rev_dropWhile)

text \<open>Normalising an email that is already normalised changes nothing.\<close>

lemma normalizeEmail_idem: "normalizeEmail (normalizeEmail s) = normalizeEmail s"
  by (simp add: normalizeEmail_def trim_toLowerCase toLowerCase_idem trim_idem)

text \<open>
  The test of the email pattern agrees with the regular expression: it accepts exactly
  the strings \<open>a @ b . c\<close> whose three parts are non-empty and contain neither white
  space nor \<open>@\<close>.
\<close>

lemma dot_plain: "\<not> isWhiteSpace CHR ''.''" "CHR ''.'' \<noteq> CHR ''@''"
  by (simp_all add: isWhiteSpace_def)

lemma emailRegex_test_complete:
  assumes "s = a @ ''@'' @ b @ ''.'' @ c" "a \<noteq> []" "b \<noteq> []" "c \<noteq> []"
    and plain: "\<forall>x \<in> set a \<union> set b \<union> set c. \<not> isWhiteSpace x \<and> x \<noteq> CHR ''@''"
  shows "emailRegex_test s"
proof -
  have s: "s = a @ CHR ''@'' # (b @ CHR ''.'' # c)" using assms(1) by simp
  have tw: "takeWhile (\<lambda>c. c \<noteq> CHR ''@'') s = a"
    unfolding s using plain by (subst takeWhile_append2) auto
  have dw: "dropWhile (\<lambda>c. c \<noteq> CHR ''@'') s = CHR ''@'' # (b @ CHR ''.'' # c)"
    unfolding s using plain by (subst dropWhile_append2) auto
  obtain b0 bs where b: "b = b0 # bs" using assms(3) by (cases b) auto
  have bl: "butlast (bs @ CHR ''.'' # c) = bs @ CHR ''.'' # butlast c"
    using assms(4) by (simp add: butlast_append)
  show ?thesis
    unfolding emailRegex_test_def Let_def tw dw
    using assms(2) plain dot_plain
    by (auto simp add: list_ex_iff b bl)
qed

lemma emailRegex_test_sound:
  assumes "emailRegex_test s"
  shows "\<exists>a b c. s = a @ ''@'' @ b @ ''.'' @ c \<and> a \<noteq> [] \<and> b \<noteq> [] \<and> c \<noteq> [] \<and>
           (\<forall>x \<in> set a \<union> set b \<union> set c. \<not> isWhiteSpace x \<and> x \<noteq> CHR ''@'')"
proof -
  define a where "a = takeWhile (\<lambda>c. c \<noteq> CHR ''@'') s"
  define r where "r = dropWhile (\<lambda>c. c \<noteq> CHR ''@'') s"
  from assms have r: "r \<noteq> []" and a: "a \<noteq> []" and aw: "\<not> list_ex isWhiteSpace a"
    and dw: "\<not> list_ex (\<lambda>c. isWhiteSpace c \<or> c = CHR ''@'') (tl r)"
    and dot: "CHR ''.'' \<in> set (butlast (tl (tl r)))"
    by (simp_all add: emailRegex_test_def Let_def a_def r_def)
  have "hd r = CHR ''@''"
    using r hd_dropWhile [of "\<lambda>c. c \<noteq> CHR ''@''" s] by (simp add: r_def)
  with r obtain d where rd: "r = CHR ''@'' # d" by (cases r) auto
  from dot rd obtain d0 d' where d: "d = d0 # d'" by (cases d) auto
  from dot rd d obtain p q where pq: "butlast d' = p @ CHR ''.'' # q"
    by (auto dest: split_list)
  then have "d' \<noteq> []" by auto
  then have "butlast d' @ [last d'] = d'" by simp
  with pq have "p @ CHR ''.'' # (q @ [last d']) = d'" by simp
  then have "\<exists>l. d' = p @ CHR ''.'' # (q @ [l])" by (intro exI [of _ "last d'"]) (rule sym)
  then obtain l where d': "d' = p @ CHR ''.'' # (q @ [l])" ..
  have "s = a @ r" by (simp add: a_def r_def)
  then have s: "s = a @ ''@'' @ (d0 # p) @ ''.'' @ (q @ [l])"
    by (simp add: rd d d')
  have pa: "\<forall>x \<in> set a. \<not> isWhiteSpace x \<and> x \<noteq> CHR ''@''"
    using aw by (auto simp add: list_ex_iff a_def dest: set_takeWhileD)
  have pd: "\<forall>x \<in> set (d0 # p) \<union> set (q @ [l]). \<not> isWhiteSpace x \<and> x \<noteq> CHR ''@''"
    using dw by (auto simp add: list_ex_iff rd d d')
  show ?thesis
  proof (intro exI conjI)
    show "s = a @ ''@'' @ (d0 # p) @ ''.'' @ (q @ [l])" by (rule s)
    show "a \<noteq> []" by (rule a)
    show "d0 # p \<noteq> []" by simp
    show "q @ [l] \<noteq> []" by simp
    show "\<forall>x \<in> set a \<union> set (d0 # p) \<union> set (q @ [l]). \<not> isWhiteSpace x \<and> x \<noteq> CHR ''@''"
      using pa pd by blast
  qed
qed

lemma emailRegex_test_iff:
  "emailRegex_test s \<longleftrightarrow>
     (\<exists>a b c. s = a @ ''@'' @ b @ ''.'' @ c \<and> a \<noteq> [] \<and> b \<noteq> [] \<and> c \<noteq> [] \<and>
        (\<forall>x \<in> set a \<union> set b \<union> set c. \<not> isWhiteSpace x \<and> x \<noteq> CHR ''@''))"
proof
  assume "emailRegex_test s"
  then show "\<exists>a b c. s = a @ ''@'' @ b @ ''.'' @ c \<and> a \<noteq> [] \<and> b \<noteq> [] \<and> c \<noteq> [] \<and>
        (\<forall>x \<in> set a \<union> set b \<union> set c. \<not> isWhiteSpace x \<and> x \<noteq> CHR ''@'')"
    by (rule emailRegex_test_sound)
next
  assume "\<exists>a b c. s = a @ ''@'' @ b @ ''.'' @ c \<and> a \<noteq> [] \<and> b \<noteq> [] \<and> c \<noteq> [] \<and>
        (\<forall>x \<in> set a \<union> set b \<union> set c. \<not> isWhiteSpace x \<and> x \<noteq> CHR ''@'')"
  then obtain a b c where "s = a @ ''@'' @ b @ ''.'' @ c" "a \<noteq> []" "b \<noteq> []" "c \<noteq> []"
    "\<forall>x \<in> set a \<union> set b \<union> set c. \<not> isWhiteSpace x \<and> x \<noteq> CHR ''@''"
    by (elim exE conjE) (rule that)
  then show "emailRegex_test s" by (rule emailRegex_test_complete)
qed

text \<open>The functions at the inputs the examples below use.\<close>

lemma normalizeEmail_examples:
  "normalizeEmail ''operator@demo.com'' = ''operator@demo.com''"
  "normalizeEmail '' Operator@Demo.com '' = ''operator@demo.com''"
  "normalizeEmail ''jane@x.com'' = ''jane@x.com''"
  "normalizeEmail ''nobody@x.com'' = ''nobody@x.com''"
  "normalizeEmail ''reset_jane@x.com'' = ''reset_jane@x.com''"
  by code_simp+

lemma emailRegex_test_examples:
  "emailRegex_test ''jane@x.com''"
  "emailRegex_test ''operator@demo.com''"
  "emailRegex_test ''reset_jane@x.com''"
  "emailRegex_test ''a@b..c''"
  "\<not> emailRegex_test ''jane@x''"
  "\<not> emailRegex_test ''jane@.com''"
  "\<not> emailRegex_test ''j ane@x.com''"
  "\<not> emailRegex_test ''ja@ne@x.com''"
  "\<not> emailRegex_test '' Operator@Demo.com ''"
  by code_simp+

text \<open>
  The comparison accepts the password that was hashed, refuses another short one, and,
  as the library does, cannot tell two passwords apart that agree on their first 72 bytes.
\<close>

lemma bcrypt_compare_hash: "bcrypt_compare pw (bcrypt_hash pw rounds)"
  by (simp add: bcrypt_compare_def bcrypt_hash_def)

lemma bcrypt_compare_wrong_password:
  "\<not> bcrypt_compare ''demo124'' (bcrypt_hash ''demo123'' 10)"
  by code_simp

lemma utf8_append: "utf8 (a @ b) = utf8 a @ utf8 b"
  by (simp add: utf8_def)

lemma bcrypt_key_long:
  assumes "72 \<le> length (utf8 pw)"
  shows "bcrypt_key (pw @ rest) = take 72 (utf8 pw)"
proof -
  have "replicate 72 (utf8 (pw @ rest) @ [0]) =
        (utf8 pw @ (utf8 rest @ [0])) # replicate 71 (utf8 (pw @ rest) @ [0])"
    by (simp add: utf8_append numeral_eq_Suc)
  with assms show ?thesis
    by (simp add: bcrypt_key_def)
qed

lemma bcrypt_compare_truncates:
  "72 \<le> length (utf8 pw) \<Longrightarrow> bcrypt_compare (pw @ x) (bcrypt_hash (pw @ y) rounds)"
  by (simp add: bcrypt_compare_def bcrypt_hash_def bcrypt_key_long)

lemma hashPassword_demo: "hashPassword ''demo123'' = ''ZGVtbzEyM19mbG93ZGFzaF9zYWx0XzIwMjQ=''"
  by code_simp


section \<open>The example states, evaluated\<close>

lemma trim_examples: "trim ''Jane'' = ''Jane''" "trim [] = []"
  by code_simp+

lemma example_nonempty: "example_hex \<noteq> []" "example_b64 \<noteq> []"
  by (simp_all add: example_hex_def example_b64_def)

lemmas ex_simps = example_env_def example_ctx_env_def falsy_def str_def Let_def
  normalizeEmail_examples emailRegex_test_examples trim_examples example_nonempty

lemma srv_reset_requested_eq:
  "srv_reset_requested =
     \<lparr>users = demo_users,
      pendingVerifications =
        [''reset_operator@demo.com'' \<mapsto>
           \<lparr>token = example_hex, expiry = 1700003600000, userId = ''1''\<rparr>]\<rparr>"
  by (simp add: srv_reset_requested_def requestPasswordReset_def srv_init_def find_user_def
      demo_users_def ex_simps)

lemma ctx_reset_requested_eq:
  "ctx_reset_requested =
     ctx_init\<lparr>passwordResetTokens :=
        [''operator@demo.com'' \<mapsto> \<lparr>rt_token = example_b64, rt_expiresAt = 1700003600000\<rparr>]\<rparr>"
  by (simp add: ctx_reset_requested_def ctx_requestPasswordReset_def ctx_init_def js_get_def
      js_set_def truthy_def DEMO_USERS_def ex_simps)

lemma srv_signed_up_eq:
  "srv_signed_up =
     \<lparr>users = demo_users @ [jane],
      pendingVerifications =
        [''jane@x.com'' \<mapsto>
           \<lparr>token = example_hex, expiry = 1700086400000,
            userId = ''usr_1700000000000_k3j9x2m1q''\<rparr>]\<rparr>"
  by (simp add: srv_signed_up_def signup_def srv_init_def find_user_def demo_users_def
      jane_def ex_simps)

lemma ctx_signed_up_eq:
  "ctx_signed_up =
     ctx_init\<lparr>registeredUsers := [''jane@x.com'' \<mapsto> ctx_jane],
              pendingStore :=
                [''jane@x.com'' \<mapsto>
                   \<lparr>pv_token = example_b64, pv_email = ''jane@x.com'',
                    pv_expiresAt = 1700086400000\<rparr>]\<rparr>"
  by (simp add: ctx_signed_up_def ctx_signup_def ctx_init_def js_get_def js_set_def truthy_def
      DEMO_USERS_def Object_prototype_keys_def ctx_jane_def succeed_def ex_simps)




section \<open>The role hierarchy\<close>

text \<open>
  Claim C8 (permission monotonicity). In the static table \<^verbatim>\<open>ROLE_PERMISSIONS\<close> every
  permission granted to the operator is granted to the manager and to the director, and
  every permission granted to the manager is granted to the director.
\<close>

theorem permission_superset:
  "set (ROLE_PERMISSIONS Operator) \<subseteq> set (ROLE_PERMISSIONS Manager) \<and>
   set (ROLE_PERMISSIONS Operator) \<subseteq> set (ROLE_PERMISSIONS Director) \<and>
   set (ROLE_PERMISSIONS Manager) \<subseteq> set (ROLE_PERMISSIONS Director)"
  by simp


section \<open>What validateResetToken changes\<close>

lemma validateResetToken_frame:
  "fst (validateResetToken st e email_field token_field) =
     (if \<not> falsy email_field \<and> \<not> falsy token_field \<and>
         (case pendingVerifications st (''reset_'' @ normalizeEmail (str email_field)) of
            None \<Rightarrow> False
          | Some pend \<Rightarrow> token pend = str token_field \<and> expiry pend < now e)
      then st\<lparr>pendingVerifications :=
                (pendingVerifications st)(''reset_'' @ normalizeEmail (str email_field) := None)\<rparr>
      else st)"
  by (simp add: validateResetToken_def Let_def split: option.splits)

lemma ctx_validateResetToken_frame:
  "fst (ctx_validateResetToken st e mail tok) =
     (if (case passwordResetTokens st (normalizeEmail mail) of
            None \<Rightarrow> False
          | Some stored \<Rightarrow> rt_token stored = tok \<and> rt_expiresAt stored < c_now e)
      then st\<lparr>passwordResetTokens := (passwordResetTokens st)(normalizeEmail mail := None)\<rparr>
      else st)"
  by (simp add: ctx_validateResetToken_def js_get_def js_delete_def Let_def
      split: option.splits property.splits)

text \<open>
  Claim C2, as amended. \<^verbatim>\<open>validateResetToken\<close> never touches the credential store and never
  inserts or updates a token; the one change it can make is to delete the reset entry of
  the normalised email, which it does exactly when the submitted token equals the stored
  one and the stored expiry lies before the current time. In every other case the state
  it returns is the state it was given. This holds for the controller and for the context.
\<close>

theorem validateResetToken_frame_both:
  "fst (validateResetToken st e email_field token_field) =
     (if \<not> falsy email_field \<and> \<not> falsy token_field \<and>
         (case pendingVerifications st (''reset_'' @ normalizeEmail (str email_field)) of
            None \<Rightarrow> False
          | Some pend \<Rightarrow> token pend = str token_field \<and> expiry pend < now e)
      then st\<lparr>pendingVerifications :=
                (pendingVerifications st)(''reset_'' @ normalizeEmail (str email_field) := None)\<rparr>
      else st) \<and>
   fst (ctx_validateResetToken cst ce mail tok) =
     (if (case passwordResetTokens cst (normalizeEmail mail) of
            None \<Rightarrow> False
          | Some stored \<Rightarrow> rt_token stored = tok \<and> rt_expiresAt stored < c_now ce)
      then cst\<lparr>passwordResetTokens := (passwordResetTokens cst)(normalizeEmail mail := None)\<rparr>
      else cst)"
  using validateResetToken_frame ctx_validateResetToken_frame by blast

text \<open>
  Claim C2 as stated (no entry is ever deleted) fails: one hour and one millisecond after
  a reset request for \<^verbatim>\<open>operator@demo.com\<close>, validating the right token removes the
  entry from the token store, in the controller and in the context alike.
\<close>

theorem validateResetToken_deletes_expired:
  "pendingVerifications srv_reset_requested ''reset_operator@demo.com'' \<noteq> None \<and>
   pendingVerifications
     (fst (validateResetToken srv_reset_requested (example_env 1700003600001)
             (Some ''operator@demo.com'')
             (Some example_hex)))
     ''reset_operator@demo.com'' = None \<and>
   passwordResetTokens ctx_reset_requested ''operator@demo.com'' \<noteq> None \<and>
   passwordResetTokens
     (fst (ctx_validateResetToken ctx_reset_requested (example_ctx_env 1700003600001)
             ''operator@demo.com'' example_b64))
     ''operator@demo.com'' = None"
  by (simp add: srv_reset_requested_eq ctx_reset_requested_eq validateResetToken_def
      ctx_validateResetToken_def js_get_def js_delete_def ex_simps)



section \<open>The branches of the token operations\<close>




lemma verifyEmail_expired:
  "\<not> falsy email_field \<Longrightarrow> \<not> falsy token_field \<Longrightarrow>
   pendingVerifications st (normalizeEmail (str email_field)) = Some pend \<Longrightarrow>
   token pend = str token_field \<Longrightarrow> expiry pend < now e \<Longrightarrow>
   verifyEmail st e email_field token_field =
     (st\<lparr>pendingVerifications :=
           (pendingVerifications st)(normalizeEmail (str email_field) := None)\<rparr>,
      reply 400 False ''Verification link has expired. Please sign up again.'')"
  by (simp add: verifyEmail_def)



lemma validateResetToken_required:
  "falsy email_field \<or> falsy token_field \<Longrightarrow>
   validateResetToken st e email_field token_field =
     (st, reply 400 False ''Email and token are required'')"
  by (simp add: validateResetToken_def)

lemma validateResetToken_unknown:
  "\<not> falsy email_field \<Longrightarrow> \<not> falsy token_field \<Longrightarrow>
   pendingVerifications st (''reset_'' @ normalizeEmail (str email_field)) = None \<Longrightarrow>
   validateResetToken st e email_field token_field =
     (st, reply 400 False ''Invalid or expired reset link'')"
  by (simp add: validateResetToken_def)

lemma validateResetToken_mismatch:
  "\<not> falsy email_field \<Longrightarrow> \<not> falsy token_field \<Longrightarrow>
   pendingVerifications st (''reset_'' @ normalizeEmail (str email_field)) = Some pend \<Longrightarrow>
   token pend \<noteq> str token_field \<Longrightarrow>
   validateResetToken st e email_field token_field = (st, reply 400 False ''Invalid reset token'')"
  by (simp add: validateResetToken_def)

lemma validateResetToken_expired:
  "\<not> falsy email_field \<Longrightarrow> \<not> falsy token_field \<Longrightarrow>
   pendingVerifications st (''reset_'' @ normalizeEmail (str email_field)) = Some pend \<Longrightarrow>
   token pend = str token_field \<Longrightarrow> expiry pend < now e \<Longrightarrow>
   validateResetToken st e email_field token_field =
     (st\<lparr>pendingVerifications :=
           (pendingVerifications st)(''reset_'' @ normalizeEmail (str email_field) := None)\<rparr>,
      reply 400 False ''Reset link has expired'')"
  by (simp add: validateResetToken_def)

lemma validateResetToken_ok:
  "\<not> falsy email_field \<Longrightarrow> \<not> falsy token_field \<Longrightarrow>
   pendingVerifications st (''reset_'' @ normalizeEmail (str email_field)) = Some pend \<Longrightarrow>
   token pend = str token_field \<Longrightarrow> now e \<le> expiry pend \<Longrightarrow>
   validateResetToken st e email_field token_field = (st, reply 200 True ''Token is valid'')"
  by (simp add: validateResetToken_def)

lemma resetPassword_required:
  "falsy email_field \<or> falsy token_field \<or> falsy newPassword_field \<Longrightarrow>
   resetPassword st e email_field token_field newPassword_field =
     (st, reply 400 False ''Email, token and new password are required'')"
  by (simp add: resetPassword_def)

lemma resetPassword_weak:
  "\<not> falsy email_field \<Longrightarrow> \<not> falsy token_field \<Longrightarrow> \<not> falsy newPassword_field \<Longrightarrow>
   length (str newPassword_field) < 6 \<Longrightarrow>
   resetPassword st e email_field token_field newPassword_field =
     (st, reply 400 False ''Password must be at least 6 characters'')"
  by (simp add: resetPassword_def)

lemma long_not_falsy: "6 \<le> length (str field) \<Longrightarrow> \<not> falsy field"
  by (cases field) (auto simp add: falsy_def str_def)

lemma resetPassword_unknown:
  "\<not> falsy email_field \<Longrightarrow> \<not> falsy token_field \<Longrightarrow> 6 \<le> length (str newPassword_field) \<Longrightarrow>
   pendingVerifications st (''reset_'' @ normalizeEmail (str email_field)) = None \<Longrightarrow>
   resetPassword st e email_field token_field newPassword_field =
     (st, reply 400 False ''Invalid or expired reset link'')"
  by (simp add: resetPassword_def long_not_falsy)

lemma resetPassword_mismatch:
  "\<not> falsy email_field \<Longrightarrow> \<not> falsy token_field \<Longrightarrow> 6 \<le> length (str newPassword_field) \<Longrightarrow>
   pendingVerifications st (''reset_'' @ normalizeEmail (str email_field)) = Some pend \<Longrightarrow>
   token pend \<noteq> str token_field \<Longrightarrow>
   resetPassword st e email_field token_field newPassword_field =
     (st, reply 400 False ''Invalid reset token'')"
  by (simp add: resetPassword_def long_not_falsy)

lemma resetPassword_expired:
  "\<not> falsy email_field \<Longrightarrow> \<not> falsy token_field \<Longrightarrow> 6 \<le> length (str newPassword_field) \<Longrightarrow>
   pendingVerifications st (''reset_'' @ normalizeEmail (str email_field)) = Some pend \<Longrightarrow>
   token pend = str token_field \<Longrightarrow> expiry pend < now e \<Longrightarrow>
   resetPassword st e email_field token_field newPassword_field =
     (st\<lparr>pendingVerifications :=
           (pendingVerifications st)(''reset_'' @ normalizeEmail (str email_field) := None)\<rparr>,
      reply 400 False ''Reset link has expired'')"
  by (simp add: resetPassword_def long_not_falsy)

lemma resetPassword_ok:
  "\<not> falsy email_field \<Longrightarrow> \<not> falsy token_field \<Longrightarrow> 6 \<le> length (str newPassword_field) \<Longrightarrow>
   pendingVerifications st (''reset_'' @ normalizeEmail (str email_field)) = Some pend \<Longrightarrow>
   token pend = str token_field \<Longrightarrow> now e \<le> expiry pend \<Longrightarrow>
   resetPassword st e email_field token_field newPassword_field =
     (st\<lparr>users := update_first (\<lambda>u. email u = normalizeEmail (str email_field))
                     (\<lambda>u. u\<lparr>password := bcrypt_hash (str newPassword_field) 12\<rparr>) (users st),
         pendingVerifications :=
           (pendingVerifications st)(''reset_'' @ normalizeEmail (str email_field) := None)\<rparr>,
      reply 200 True ''Password has been reset successfully'')"
  by (simp add: resetPassword_def long_not_falsy Let_def)

lemma resetPassword_success_cases:
  assumes "success (snd (resetPassword st e email_field token_field newPassword_field))"
  obtains pend where "\<not> falsy email_field" "\<not> falsy token_field"
    "6 \<le> length (str newPassword_field)"
    "pendingVerifications st (''reset_'' @ normalizeEmail (str email_field)) = Some pend"
    "token pend = str token_field" "now e \<le> expiry pend"
proof (cases "falsy email_field \<or> falsy token_field \<or> falsy newPassword_field")
  case True
  with assms show ?thesis by (simp add: resetPassword_required reply_def)
next
  case present: False
  show ?thesis
  proof (cases "length (str newPassword_field) < 6")
    case True
    with assms present show ?thesis by (simp add: resetPassword_weak reply_def)
  next
    case long: False
    show ?thesis
    proof (cases "pendingVerifications st (''reset_'' @ normalizeEmail (str email_field))")
      case None
      with assms present long show ?thesis by (simp add: resetPassword_unknown reply_def)
    next
      case (Some pend)
      show ?thesis
      proof (cases "token pend = str token_field")
        case False
        with assms present long Some show ?thesis by (simp add: resetPassword_mismatch reply_def)
      next
        case True
        show ?thesis
        proof (cases "expiry pend < now e")
          case expired: True
          with assms present long Some True show ?thesis
            by (simp add: resetPassword_expired reply_def)
        next
          case False
          with present long Some True that show ?thesis by simp
        qed
      qed
    qed
  qed
qed

subsection \<open>Success of validateResetToken\<close>

lemma validateResetToken_success_cases:
  assumes "success (snd (validateResetToken st e email_field token_field))"
  obtains pend where "\<not> falsy email_field" "\<not> falsy token_field"
    "pendingVerifications st (''reset_'' @ normalizeEmail (str email_field)) = Some pend"
    "token pend = str token_field" "now e \<le> expiry pend"
proof (cases "falsy email_field \<or> falsy token_field")
  case True
  with assms show ?thesis by (simp add: validateResetToken_required reply_def)
next
  case present: False
  show ?thesis
  proof (cases "pendingVerifications st (''reset_'' @ normalizeEmail (str email_field))")
    case None
    with assms present show ?thesis by (simp add: validateResetToken_unknown reply_def)
  next
    case (Some pend)
    show ?thesis
    proof (cases "token pend = str token_field")
      case False
      with assms present Some show ?thesis by (simp add: validateResetToken_mismatch reply_def)
    next
      case True
      show ?thesis
      proof (cases "expiry pend < now e")
        case expired: True
        with assms present Some True show ?thesis
          by (simp add: validateResetToken_expired reply_def)
      next
        case False
        with present Some True that show ?thesis by simp
      qed
    qed
  qed
qed

lemma resetPassword_needs_valid_token:
  assumes "\<not> success (snd (validateResetToken st e email_field token_field))"
  shows "\<not> success (snd (resetPassword st e email_field token_field newPassword_field))"
proof
  assume "success (snd (resetPassword st e email_field token_field newPassword_field))"
  then obtain pend where "\<not> falsy email_field" "\<not> falsy token_field"
    "pendingVerifications st (''reset_'' @ normalizeEmail (str email_field)) = Some pend"
    "token pend = str token_field" "now e \<le> expiry pend"
    by (rule resetPassword_success_cases)
  then have "validateResetToken st e email_field token_field = (st, reply 200 True ''Token is valid'')"
    by (rule validateResetToken_ok)
  with assms show False by (simp add: reply_def)
qed


section \<open>Client branches\<close>






lemma ctx_validateResetToken_expired:
  "passwordResetTokens st (normalizeEmail mail) = Some stored \<Longrightarrow> rt_token stored = tok \<Longrightarrow>
   rt_expiresAt stored < c_now e \<Longrightarrow>
   ctx_validateResetToken st e mail tok =
     (st\<lparr>passwordResetTokens := js_delete (passwordResetTokens st) (normalizeEmail mail)\<rparr>,
      fail ''Reset link has expired'')"
  by (simp add: ctx_validateResetToken_def js_get_def)

lemma ctx_validateResetToken_ok:
  "passwordResetTokens st (normalizeEmail mail) = Some stored \<Longrightarrow> rt_token stored = tok \<Longrightarrow>
   c_now e \<le> rt_expiresAt stored \<Longrightarrow>
   ctx_validateResetToken st e mail tok = (st, succeed)"
  by (simp add: ctx_validateResetToken_def js_get_def)


lemma ctx_validateResetToken_normalized:
  "ctx_validateResetToken st e (normalizeEmail mail) tok = ctx_validateResetToken st e mail tok"
  by (simp add: ctx_validateResetToken_def normalizeEmail_idem)

lemma ctx_validateResetToken_failure_shape:
  "\<not> r_success (snd (ctx_validateResetToken st e mail tok)) \<Longrightarrow>
   \<lparr>r_success = False, r_error = r_error (snd (ctx_validateResetToken st e mail tok)),
    r_requiresVerification = None\<rparr> = snd (ctx_validateResetToken st e mail tok)"
  by (simp add: ctx_validateResetToken_def fail_def succeed_def Let_def
      split: property.splits if_splits)

lemma ctx_resetPassword_invalid:
  assumes "\<not> r_success (snd (ctx_validateResetToken st e mail tok))"
  shows "ctx_resetPassword st e mail tok newPassword = ctx_validateResetToken st e mail tok"
proof -
  obtain st1 v where v: "ctx_validateResetToken st e mail tok = (st1, v)"
    by (cases "ctx_validateResetToken st e mail tok")
  with assms have bad: "\<not> r_success v" by simp
  from ctx_validateResetToken_failure_shape [OF assms] v
  have "\<lparr>r_success = False, r_error = r_error v, r_requiresVerification = None\<rparr> = v" by simp
  with v bad show ?thesis
    by (simp add: ctx_resetPassword_def ctx_validateResetToken_normalized)
qed


lemma ctx_resetPassword_ok:
  assumes "passwordResetTokens st (normalizeEmail mail) = Some stored" "rt_token stored = tok"
    "c_now e \<le> rt_expiresAt stored" "6 \<le> length newPassword"
  shows "ctx_resetPassword st e mail tok newPassword =
           ((case registeredUsers st (normalizeEmail mail) of
               Some su \<Rightarrow>
                 st\<lparr>registeredUsers := (registeredUsers st)
                       (normalizeEmail mail \<mapsto> su\<lparr>hashedPassword := hashPassword newPassword\<rparr>)\<rparr>
             | None \<Rightarrow> st)
            \<lparr>passwordResetTokens := js_delete (passwordResetTokens st) (normalizeEmail mail)\<rparr>,
            succeed)"
  using assms(4)
  by (simp add: ctx_resetPassword_def ctx_validateResetToken_normalized
      ctx_validateResetToken_ok [OF assms(1-3)] succeed_def js_get_def Let_def
      split: option.splits)


lemma ctx_resetPassword_needs_valid_token:
  "\<not> r_success (snd (ctx_validateResetToken st e mail tok)) \<Longrightarrow>
   \<not> r_success (snd (ctx_resetPassword st e mail tok newPassword))"
  by (simp add: ctx_resetPassword_invalid)




lemma ctx_verifyEmail_expired:
  "pendingStore st (normalizeEmail mail) = Some pend \<Longrightarrow> pv_token pend = tok \<Longrightarrow>
   pv_expiresAt pend < c_now e \<Longrightarrow>
   ctx_verifyEmail st e mail tok =
     (st\<lparr>pendingStore := js_delete (pendingStore st) (normalizeEmail mail)\<rparr>,
      fail ''Verification link has expired. Please sign up again.'')"
  by (simp add: ctx_verifyEmail_def js_get_def)



section \<open>resetPassword against validateResetToken\<close>

text \<open>
  Claim C7. On the same state, at the same time and for the same email and token,
  \<^verbatim>\<open>resetPassword\<close> fails whenever \<^verbatim>\<open>validateResetToken\<close> fails, whatever the new password
  is; in the controller and in the context.
\<close>

theorem resetPassword_never_beats_validateResetToken:
  "(\<not> success (snd (validateResetToken st e email_field token_field)) \<longrightarrow>
      \<not> success (snd (resetPassword st e email_field token_field newPassword_field))) \<and>
   (\<not> r_success (snd (ctx_validateResetToken cst ce mail tok)) \<longrightarrow>
      \<not> r_success (snd (ctx_resetPassword cst ce mail tok newPassword)))"
  using resetPassword_needs_valid_token ctx_resetPassword_needs_valid_token by blast

theorem resetPassword_never_beats_validateResetToken_witness:
  "\<not> success (snd (validateResetToken srv_reset_requested (example_env 1700000001000)
        (Some ''operator@demo.com'') (Some ''deadbeef''))) \<and>
   \<not> success (snd (resetPassword srv_reset_requested (example_env 1700000001000)
        (Some ''operator@demo.com'') (Some ''deadbeef'') (Some ''newpass1''))) \<and>
   \<not> r_success (snd (ctx_validateResetToken ctx_reset_requested (example_ctx_env 1700003600001)
        ''operator@demo.com'' example_b64)) \<and>
   \<not> r_success (snd (ctx_resetPassword ctx_reset_requested (example_ctx_env 1700003600001)
        ''operator@demo.com'' example_b64 ''newpass1''))"
proof -
  have a: "\<not> success (snd (validateResetToken srv_reset_requested (example_env 1700000001000)
        (Some ''operator@demo.com'') (Some ''deadbeef'')))"
    by (simp add: srv_reset_requested_eq validateResetToken_def reply_def example_hex_def
        ex_simps)
  have b: "\<not> r_success (snd (ctx_validateResetToken ctx_reset_requested
        (example_ctx_env 1700003600001) ''operator@demo.com'' example_b64))"
    by (simp add: ctx_reset_requested_eq ctx_validateResetToken_def js_get_def fail_def ex_simps)
  from a b resetPassword_never_beats_validateResetToken
    [where st = srv_reset_requested and e = "example_env 1700000001000"
       and email_field = "Some ''operator@demo.com''" and token_field = "Some ''deadbeef''"
       and newPassword_field = "Some ''newpass1''" and cst = ctx_reset_requested
       and ce = "example_ctx_env 1700003600001" and mail = "''operator@demo.com''"
       and tok = example_b64 and newPassword = "''newpass1''"]
  show ?thesis by blast
qed


section \<open>Single use\<close>













section \<open>Expiry enforcement\<close>

lemma more_examples:
  "normalizeEmail ''Operator@Demo.com'' = ''operator@demo.com''"
  "normalizeEmail ''manager@demo.com'' = ''manager@demo.com''"
  "normalizeEmail ''not-an-email'' = ''not-an-email''"
  "emailRegex_test ''Operator@Demo.com''"
  "emailRegex_test ''manager@demo.com''"
  by code_simp+

lemma resetPassword_expired_fails:
  assumes "\<not> falsy email_field" "\<not> falsy token_field"
    "pendingVerifications st (''reset_'' @ normalizeEmail (str email_field)) = Some pend"
    "token pend = str token_field" "expiry pend < now e"
  shows "\<not> success (snd (resetPassword st e email_field token_field newPassword_field)) \<and>
         users (fst (resetPassword st e email_field token_field newPassword_field)) = users st"
proof (cases "falsy newPassword_field")
  case True
  then show ?thesis by (simp add: resetPassword_required reply_def)
next
  case present: False
  show ?thesis
  proof (cases "length (str newPassword_field) < 6")
    case True
    with assms present show ?thesis by (simp add: resetPassword_weak reply_def)
  next
    case False
    then have "6 \<le> length (str newPassword_field)" by simp
    from resetPassword_expired [OF assms(1,2) this assms(3-5)] show ?thesis
      by (simp add: reply_def)
  qed
qed

lemma ctx_resetPassword_expired:
  assumes "passwordResetTokens st (normalizeEmail mail) = Some stored" "rt_token stored = tok"
    "rt_expiresAt stored < c_now e"
  shows "ctx_resetPassword st e mail tok newPassword =
           (st\<lparr>passwordResetTokens := js_delete (passwordResetTokens st) (normalizeEmail mail)\<rparr>,
            fail ''Reset link has expired'')"
proof -
  note v = ctx_validateResetToken_expired [OF assms, of]
  then have "\<not> r_success (snd (ctx_validateResetToken st e mail tok))"
    by (simp add: fail_def)
  then show ?thesis by (simp add: ctx_resetPassword_invalid v)
qed

text \<open>
  Claim C6, as amended. A token whose stored expiry lies before the current time is
  rejected although the submitted value equals the stored one. \<^verbatim>\<open>verifyEmail\<close> and
  \<^verbatim>\<open>validateResetToken\<close> delete the entry and answer with the expired-link failure (in the
  controller: for a request whose email and token fields are present). \<^verbatim>\<open>resetPassword\<close>
  never succeeds and never changes a password; it answers with the expired-link failure
  in the context always, and in the controller whenever the new password has at least six
  characters (a shorter or missing new password is refused by the controller before it
  looks at the token).
\<close>

theorem expired_token_rejected:
  "(\<not> falsy email_field \<and> \<not> falsy token_field \<and>
    pendingVerifications st (normalizeEmail (str email_field)) = Some pend \<and>
    token pend = str token_field \<and> expiry pend < now e \<longrightarrow>
      verifyEmail st e email_field token_field =
        (st\<lparr>pendingVerifications :=
              (pendingVerifications st)(normalizeEmail (str email_field) := None)\<rparr>,
         reply 400 False ''Verification link has expired. Please sign up again.'')) \<and>
   (\<not> falsy email_field \<and> \<not> falsy token_field \<and>
    pendingVerifications st (''reset_'' @ normalizeEmail (str email_field)) = Some rpend \<and>
    token rpend = str token_field \<and> expiry rpend < now e \<longrightarrow>
      validateResetToken st e email_field token_field =
        (st\<lparr>pendingVerifications :=
              (pendingVerifications st)(''reset_'' @ normalizeEmail (str email_field) := None)\<rparr>,
         reply 400 False ''Reset link has expired'') \<and>
      \<not> success (snd (resetPassword st e email_field token_field newPassword_field)) \<and>
      users (fst (resetPassword st e email_field token_field newPassword_field)) = users st \<and>
      (6 \<le> length (str newPassword_field) \<longrightarrow>
         resetPassword st e email_field token_field newPassword_field =
           (st\<lparr>pendingVerifications :=
                 (pendingVerifications st)
                   (''reset_'' @ normalizeEmail (str email_field) := None)\<rparr>,
            reply 400 False ''Reset link has expired''))) \<and>
   (pendingStore cst (normalizeEmail mail) = Some cpend \<and> pv_token cpend = tok \<and>
    pv_expiresAt cpend < c_now ce \<longrightarrow>
      ctx_verifyEmail cst ce mail tok =
        (cst\<lparr>pendingStore := js_delete (pendingStore cst) (normalizeEmail mail)\<rparr>,
         fail ''Verification link has expired. Please sign up again.'')) \<and>
   (passwordResetTokens cst (normalizeEmail mail) = Some stored \<and> rt_token stored = tok \<and>
    rt_expiresAt stored < c_now ce \<longrightarrow>
      ctx_validateResetToken cst ce mail tok =
        (cst\<lparr>passwordResetTokens := js_delete (passwordResetTokens cst) (normalizeEmail mail)\<rparr>,
         fail ''Reset link has expired'') \<and>
      ctx_resetPassword cst ce mail tok newPassword =
        (cst\<lparr>passwordResetTokens := js_delete (passwordResetTokens cst) (normalizeEmail mail)\<rparr>,
         fail ''Reset link has expired''))"
  apply (intro conjI impI)
  subgoal by (elim conjE) (simp add: verifyEmail_expired)
  subgoal by (elim conjE) (simp add: validateResetToken_expired)
  subgoal by (elim conjE) (simp add: resetPassword_expired_fails)
  subgoal by (elim conjE) (simp add: resetPassword_expired_fails)
  subgoal by (elim conjE) (simp add: resetPassword_expired)
  subgoal by (elim conjE) (simp add: ctx_verifyEmail_expired)
  subgoal by (elim conjE) (simp add: ctx_validateResetToken_expired)
  subgoal by (elim conjE) (simp add: ctx_resetPassword_expired)
  done

theorem expired_token_rejected_witness:
  "verifyEmail srv_signed_up (example_env 1700086400001) (Some ''jane@x.com'') (Some example_hex) =
     (srv_signed_up\<lparr>pendingVerifications := Map.empty\<rparr>,
      reply 400 False ''Verification link has expired. Please sign up again.'') \<and>
   validateResetToken srv_reset_requested (example_env 1700003600001)
       (Some ''operator@demo.com'') (Some example_hex) =
     (srv_reset_requested\<lparr>pendingVerifications := Map.empty\<rparr>,
      reply 400 False ''Reset link has expired'') \<and>
   resetPassword srv_reset_requested (example_env 1700003600001)
       (Some ''operator@demo.com'') (Some example_hex) (Some ''newpass1'') =
     (srv_reset_requested\<lparr>pendingVerifications := Map.empty\<rparr>,
      reply 400 False ''Reset link has expired'') \<and>
   ctx_verifyEmail ctx_signed_up (example_ctx_env 1700086400001) ''jane@x.com'' example_b64 =
     (ctx_signed_up\<lparr>pendingStore := Map.empty\<rparr>,
      fail ''Verification link has expired. Please sign up again.'') \<and>
   ctx_validateResetToken ctx_reset_requested (example_ctx_env 1700003600001)
       ''operator@demo.com'' example_b64 =
     (ctx_reset_requested\<lparr>passwordResetTokens := Map.empty\<rparr>, fail ''Reset link has expired'') \<and>
   ctx_resetPassword ctx_reset_requested (example_ctx_env 1700003600001)
       ''operator@demo.com'' example_b64 ''newpass1'' =
     (ctx_reset_requested\<lparr>passwordResetTokens := Map.empty\<rparr>, fail ''Reset link has expired'')"
proof -
  let ?P = "\<lparr>token = example_hex, expiry = 1700086400000,
             userId = ''usr_1700000000000_k3j9x2m1q''\<rparr>"
  let ?R = "\<lparr>token = example_hex, expiry = 1700003600000, userId = ''1''\<rparr>"
  let ?CP = "\<lparr>pv_token = example_b64, pv_email = ''jane@x.com'',
              pv_expiresAt = 1700086400000\<rparr>"
  let ?CR = "\<lparr>rt_token = example_b64, rt_expiresAt = 1700003600000\<rparr>"
  have h1: "\<not> falsy (Some ''jane@x.com'') \<and> \<not> falsy (Some example_hex) \<and>
      pendingVerifications srv_signed_up (normalizeEmail (str (Some ''jane@x.com''))) = Some ?P \<and>
      token ?P = str (Some example_hex) \<and> expiry ?P < now (example_env 1700086400001)"
    by (simp add: srv_signed_up_eq ex_simps)
  have h2: "\<not> falsy (Some ''operator@demo.com'') \<and> \<not> falsy (Some example_hex) \<and>
      pendingVerifications srv_reset_requested
        (''reset_'' @ normalizeEmail (str (Some ''operator@demo.com''))) = Some ?R \<and>
      token ?R = str (Some example_hex) \<and> expiry ?R < now (example_env 1700003600001)"
    by (simp add: srv_reset_requested_eq ex_simps)
  have h3: "6 \<le> length (str (Some ''newpass1''))"
    by (simp add: str_def)
  have h4: "pendingStore ctx_signed_up (normalizeEmail ''jane@x.com'') = Some ?CP \<and>
      pv_token ?CP = example_b64 \<and> pv_expiresAt ?CP < c_now (example_ctx_env 1700086400001)"
    by (simp add: ctx_signed_up_eq ex_simps)
  have h5: "passwordResetTokens ctx_reset_requested (normalizeEmail ''operator@demo.com'') =
        Some ?CR \<and>
      rt_token ?CR = example_b64 \<and> rt_expiresAt ?CR < c_now (example_ctx_env 1700003600001)"
    by (simp add: ctx_reset_requested_eq ex_simps)
  have d1: "srv_signed_up\<lparr>pendingVerifications := (pendingVerifications srv_signed_up)
      (normalizeEmail (str (Some ''jane@x.com'')) := None)\<rparr> =
      srv_signed_up\<lparr>pendingVerifications := Map.empty\<rparr>"
    by (simp add: srv_signed_up_eq ex_simps)
  have d2: "srv_reset_requested\<lparr>pendingVerifications := (pendingVerifications srv_reset_requested)
      (''reset_'' @ normalizeEmail (str (Some ''operator@demo.com'')) := None)\<rparr> =
      srv_reset_requested\<lparr>pendingVerifications := Map.empty\<rparr>"
    by (simp add: srv_reset_requested_eq ex_simps)
  have d3: "ctx_signed_up\<lparr>pendingStore :=
      js_delete (pendingStore ctx_signed_up) (normalizeEmail ''jane@x.com'')\<rparr> =
      ctx_signed_up\<lparr>pendingStore := Map.empty\<rparr>"
    by (simp add: ctx_signed_up_eq js_delete_def ex_simps)
  have d4: "ctx_reset_requested\<lparr>passwordResetTokens :=
      js_delete (passwordResetTokens ctx_reset_requested)
        (normalizeEmail ''operator@demo.com'')\<rparr> =
      ctx_reset_requested\<lparr>passwordResetTokens := Map.empty\<rparr>"
    by (simp add: ctx_reset_requested_eq js_delete_def ex_simps)
  from h1 h2 h3 h4 h5
    expired_token_rejected [where st = srv_signed_up and e = "example_env 1700086400001"
      and email_field = "Some ''jane@x.com''" and token_field = "Some example_hex"
      and pend = ?P and cst = ctx_signed_up and ce = "example_ctx_env 1700086400001"
      and mail = "''jane@x.com''" and tok = example_b64 and cpend = ?CP]
    expired_token_rejected [where st = srv_reset_requested and e = "example_env 1700003600001"
      and email_field = "Some ''operator@demo.com''" and token_field = "Some example_hex"
      and newPassword_field = "Some ''newpass1''" and rpend = ?R
      and cst = ctx_reset_requested and ce = "example_ctx_env 1700003600001"
      and mail = "''operator@demo.com''" and tok = example_b64
      and newPassword = "''newpass1''" and stored = ?CR]
  show ?thesis
    unfolding d1 [symmetric] d2 [symmetric] d3 [symmetric] d4 [symmetric] by blast
qed

text \<open>
  Claim C6 as stated fails for the controller's \<^verbatim>\<open>resetPassword\<close>: with the right but
  expired token and a new password of three characters the answer is the password
  validation failure, not the invalid-or-expired one, and the expired entry stays in the
  store.
\<close>

theorem resetPassword_weak_password_first:
  "pendingVerifications srv_reset_requested ''reset_operator@demo.com'' =
     Some \<lparr>token = example_hex, expiry = 1700003600000, userId = ''1''\<rparr> \<and>
   1700003600000 < now (example_env 1700003600001) \<and>
   resetPassword srv_reset_requested (example_env 1700003600001)
       (Some ''operator@demo.com'') (Some example_hex) (Some ''abc'') =
     (srv_reset_requested, reply 400 False ''Password must be at least 6 characters'')"
  by (simp add: srv_reset_requested_eq resetPassword_def ex_simps)


section \<open>Password-reset requests\<close>

text \<open>
  The controller answers every request that carries an email with the same generic
  success, whether or not an account exists.
\<close>

lemma requestPasswordReset_generic:
  "\<not> falsy email_field \<Longrightarrow>
   snd (requestPasswordReset st e email_field) =
     reply 200 True ''If an account exists with this email, you will receive a reset link.''"
  by (simp add: requestPasswordReset_def Let_def split: option.splits)

lemma ctx_requestPasswordReset_success_iff:
  "r_success (snd (ctx_requestPasswordReset st e mail)) \<longleftrightarrow>
     truthy (js_get DEMO_USERS (normalizeEmail mail)) \<or>
     truthy (js_get (registeredUsers st) (normalizeEmail mail))"
  by (simp add: ctx_requestPasswordReset_def Let_def fail_def succeed_def)

text \<open>
  Claim C1 (non-enumeration) does not hold for the context: on the initial state
  \<^verbatim>\<open>requestPasswordReset\<close> answers an email without an account with the failure
  \<^verbatim>\<open>No account found with this email\<close> and the email of a demo account with success, so
  the result tells whether an account exists.
\<close>

theorem ctx_requestPasswordReset_reveals_account:
  "ctx_requestPasswordReset ctx_init (example_ctx_env 1700000000000) ''nobody@x.com'' =
     (ctx_init, fail ''No account found with this email'') \<and>
   snd (ctx_requestPasswordReset ctx_init (example_ctx_env 1700000000000) ''operator@demo.com'') =
     succeed"
  by (simp add: ctx_requestPasswordReset_def ctx_init_def js_get_def truthy_def DEMO_USERS_def
      Object_prototype_keys_def ex_simps)

section \<open>Signup\<close>

lemma signup_invalid:
  "falsy name_field \<or> falsy email_field \<or> falsy password_field \<or>
   \<not> emailRegex_test (str email_field) \<or> length (str password_field) < 6 \<Longrightarrow>
   fst (signup st e name_field email_field password_field) = st \<and>
   status (snd (signup st e name_field email_field password_field)) = 400 \<and>
   \<not> success (snd (signup st e name_field email_field password_field))"
  by (auto simp add: signup_def reply_def)

lemma signup_duplicate:
  "\<not> falsy name_field \<Longrightarrow> \<not> falsy email_field \<Longrightarrow> \<not> falsy password_field \<Longrightarrow>
   emailRegex_test (str email_field) \<Longrightarrow> 6 \<le> length (str password_field) \<Longrightarrow>
   find_user (users st) (normalizeEmail (str email_field)) = Some u \<Longrightarrow>
   signup st e name_field email_field password_field =
     (st, reply 409 False ''An account with this email already exists'')"
  by (simp add: signup_def)

lemma ctx_signup_duplicate:
  "DEMO_USERS (normalizeEmail mail) \<noteq> None \<or> registeredUsers st (normalizeEmail mail) \<noteq> None \<Longrightarrow>
   ctx_signup st e nm mail pw = (st, fail ''An account with this email already exists'')"
  by (auto simp add: ctx_signup_def js_get_def truthy_def Let_def)

text \<open>
  A normalised email has no capital letter, so the only property names of
  \<^verbatim>\<open>Object.prototype\<close> it can be are \<^verbatim>\<open>constructor\<close> and \<^verbatim>\<open>__proto__\<close>.
\<close>

lemma key_fixpoints:
  "normalizeEmail ''constructor'' = ''constructor''"
  "normalizeEmail ''__proto__'' = ''__proto__''"
  "normalizeEmail ''__defineGetter__'' \<noteq> ''__defineGetter__''"
  "normalizeEmail ''__defineSetter__'' \<noteq> ''__defineSetter__''"
  "normalizeEmail ''hasOwnProperty'' \<noteq> ''hasOwnProperty''"
  "normalizeEmail ''__lookupGetter__'' \<noteq> ''__lookupGetter__''"
  "normalizeEmail ''__lookupSetter__'' \<noteq> ''__lookupSetter__''"
  "normalizeEmail ''isPrototypeOf'' \<noteq> ''isPrototypeOf''"
  "normalizeEmail ''propertyIsEnumerable'' \<noteq> ''propertyIsEnumerable''"
  "normalizeEmail ''toString'' \<noteq> ''toString''"
  "normalizeEmail ''valueOf'' \<noteq> ''valueOf''"
  "normalizeEmail ''toLocaleString'' \<noteq> ''toLocaleString''"
  by code_simp+


lemma normalized_prototype_key:
  assumes "normalizeEmail mail \<in> set Object_prototype_keys"
  shows "normalizeEmail mail = ''constructor'' \<or> normalizeEmail mail = ''__proto__''"
proof -
  define k where "k = normalizeEmail mail"
  have stable: "normalizeEmail k = k"
    unfolding k_def by (rule normalizeEmail_idem)
  from assms have "k \<in> set Object_prototype_keys" by (simp add: k_def)
  then have "k = ''constructor'' \<or> k = ''__defineGetter__'' \<or> k = ''__defineSetter__'' \<or>
      k = ''hasOwnProperty'' \<or> k = ''__lookupGetter__'' \<or> k = ''__lookupSetter__'' \<or>
      k = ''isPrototypeOf'' \<or> k = ''propertyIsEnumerable'' \<or> k = ''toString'' \<or>
      k = ''valueOf'' \<or> k = ''__proto__'' \<or> k = ''toLocaleString''"
    by (simp only: Object_prototype_keys_def set_simps insert_iff empty_iff simp_thms)
  then have "k = ''constructor'' \<or> k = ''__proto__''"
    using stable key_fixpoints by (elim disjE) (simp_all only: simp_thms)
  then show ?thesis by (simp only: k_def)
qed

lemma js_get_Missing:
  assumes "obj (normalizeEmail mail) = None" "normalizeEmail mail \<noteq> ''constructor''"
    "normalizeEmail mail \<noteq> ''__proto__''"
  shows "js_get obj (normalizeEmail mail) = Missing"
proof -
  from assms(2,3) normalized_prototype_key [of mail]
  have "normalizeEmail mail \<notin> set Object_prototype_keys" by blast
  with assms(1) show ?thesis by (simp add: js_get_def)
qed

lemma ctx_signup_weak:
  "DEMO_USERS (normalizeEmail mail) = None \<Longrightarrow> registeredUsers st (normalizeEmail mail) = None \<Longrightarrow>
   normalizeEmail mail \<noteq> ''constructor'' \<Longrightarrow> normalizeEmail mail \<noteq> ''__proto__'' \<Longrightarrow>
   length pw < 6 \<Longrightarrow>
   ctx_signup st e nm mail pw = (st, fail ''Password must be at least 6 characters'')"
  by (simp add: ctx_signup_def truthy_def js_get_Missing)

text \<open>
  For these two emails the lookup in \<^verbatim>\<open>DEMO_USERS\<close> finds the inherited property, and the
  context answers that the account exists although there is none.
\<close>

lemma js_get_prototype_key:
  assumes "normalizeEmail mail = ''constructor'' \<or> normalizeEmail mail = ''__proto__''"
  shows "js_get obj (normalizeEmail mail) \<noteq> Missing"
proof -
  from assms have "normalizeEmail mail \<in> set Object_prototype_keys"
    by (auto simp add: Object_prototype_keys_def)
  then show ?thesis by (simp add: js_get_def split: option.splits)
qed

lemma ctx_signup_prototype_key:
  "normalizeEmail mail = ''constructor'' \<or> normalizeEmail mail = ''__proto__'' \<Longrightarrow>
   ctx_signup st e nm mail pw = (st, fail ''An account with this email already exists'')"
  by (simp add: ctx_signup_def truthy_def js_get_prototype_key)

text \<open>
  Claim C3, as amended. Controller: a signup whose name, email or password is missing,
  whose email does not match the pattern or whose password has fewer than six characters
  is refused with status 400 and changes nothing; a signup that passes these checks and
  whose normalised email belongs to an account is refused with status 409. Context: a
  signup whose normalised email belongs to a demo or registered account is refused with
  the already-exists error; a signup whose normalised email belongs to no account and is
  neither \<^verbatim>\<open>constructor\<close> nor \<^verbatim>\<open>__proto__\<close> is refused with the password error when the
  password has fewer than six characters. The context does not check the name or the form
  of the email.
\<close>

theorem signup_rejections:
  "(falsy name_field \<or> falsy email_field \<or> falsy password_field \<or>
    \<not> emailRegex_test (str email_field) \<or> length (str password_field) < 6 \<longrightarrow>
      fst (signup st e name_field email_field password_field) = st \<and>
      status (snd (signup st e name_field email_field password_field)) = 400 \<and>
      \<not> success (snd (signup st e name_field email_field password_field))) \<and>
   (\<not> falsy name_field \<and> \<not> falsy email_field \<and> \<not> falsy password_field \<and>
    emailRegex_test (str email_field) \<and> 6 \<le> length (str password_field) \<and>
    find_user (users st) (normalizeEmail (str email_field)) = Some u \<longrightarrow>
      signup st e name_field email_field password_field =
        (st, reply 409 False ''An account with this email already exists'')) \<and>
   (DEMO_USERS (normalizeEmail mail) \<noteq> None \<or>
    registeredUsers cst (normalizeEmail mail) \<noteq> None \<longrightarrow>
      ctx_signup cst ce nm mail pw =
        (cst, fail ''An account with this email already exists'')) \<and>
   (DEMO_USERS (normalizeEmail mail) = None \<and>
    registeredUsers cst (normalizeEmail mail) = None \<and>
    normalizeEmail mail \<noteq> ''constructor'' \<and> normalizeEmail mail \<noteq> ''__proto__'' \<and>
    length pw < 6 \<longrightarrow>
      ctx_signup cst ce nm mail pw = (cst, fail ''Password must be at least 6 characters''))"
  apply (intro conjI impI)
  subgoal by (simp add: signup_invalid)
  subgoal by (simp add: signup_invalid)
  subgoal by (simp add: signup_invalid)
  subgoal by (elim conjE) (simp add: signup_duplicate)
  subgoal by (simp add: ctx_signup_duplicate)
  subgoal by (elim conjE) (simp add: ctx_signup_weak)
  done

theorem signup_rejections_witness:
  "fst (signup srv_init (example_env 1700000000000)
          (Some ''Jane'') (Some ''jane@x'') (Some ''secret1'')) = srv_init \<and>
   status (snd (signup srv_init (example_env 1700000000000)
          (Some ''Jane'') (Some ''jane@x'') (Some ''secret1''))) = 400 \<and>
   \<not> success (snd (signup srv_init (example_env 1700000000000)
          (Some ''Jane'') (Some ''jane@x'') (Some ''secret1''))) \<and>
   signup srv_init (example_env 1700000000000)
       (Some ''Alex'') (Some ''Operator@Demo.com'') (Some ''secret1'') =
     (srv_init, reply 409 False ''An account with this email already exists'') \<and>
   ctx_signup ctx_init (example_ctx_env 1700000000000) ''Alex'' '' Operator@Demo.com ''
       ''secret1'' =
     (ctx_init, fail ''An account with this email already exists'') \<and>
   ctx_signup ctx_init (example_ctx_env 1700000000000) ''Jane'' ''jane@x.com'' ''abc'' =
     (ctx_init, fail ''Password must be at least 6 characters'')"
proof -
  let ?op = "\<lparr>uid = ''1'', email = ''operator@demo.com'', password = bcrypt_hash ''demo123'' 10,
       name = ''Alex Operator'', role = ''operator'', department = ''Operations'',
       title = ''Operations Specialist'', isVerified = True,
       createdAt = ''2024-01-15T00:00:00.000Z''\<rparr>"
  have h1: "falsy (Some ''Jane'') \<or> falsy (Some ''jane@x'') \<or> falsy (Some ''secret1'') \<or>
      \<not> emailRegex_test (str (Some ''jane@x'')) \<or> length (str (Some ''secret1'')) < 6"
    by (simp add: ex_simps)
  have h2: "\<not> falsy (Some ''Alex'') \<and> \<not> falsy (Some ''Operator@Demo.com'') \<and>
      \<not> falsy (Some ''secret1'') \<and> emailRegex_test (str (Some ''Operator@Demo.com'')) \<and>
      6 \<le> length (str (Some ''secret1'')) \<and>
      find_user (users srv_init) (normalizeEmail (str (Some ''Operator@Demo.com''))) = Some ?op"
    by (simp add: srv_init_def demo_users_def find_user_def more_examples ex_simps)
  have h3: "DEMO_USERS (normalizeEmail '' Operator@Demo.com '') \<noteq> None \<or>
      registeredUsers ctx_init (normalizeEmail '' Operator@Demo.com '') \<noteq> None"
    by (simp add: DEMO_USERS_def ex_simps)
  have h4: "DEMO_USERS (normalizeEmail ''jane@x.com'') = None \<and>
      registeredUsers ctx_init (normalizeEmail ''jane@x.com'') = None \<and>
      normalizeEmail ''jane@x.com'' \<noteq> ''constructor'' \<and>
      normalizeEmail ''jane@x.com'' \<noteq> ''__proto__'' \<and> length ''abc'' < 6"
    by (simp add: DEMO_USERS_def ctx_init_def ex_simps)
  from h1 h2 h3 h4
    signup_rejections [where st = srv_init and e = "example_env 1700000000000"
      and name_field = "Some ''Jane''" and email_field = "Some ''jane@x''"
      and password_field = "Some ''secret1''"]
    signup_rejections [where st = srv_init and e = "example_env 1700000000000"
      and name_field = "Some ''Alex''" and email_field = "Some ''Operator@Demo.com''"
      and password_field = "Some ''secret1''" and u = ?op and cst = ctx_init
      and ce = "example_ctx_env 1700000000000" and nm = "''Alex''"
      and mail = "'' Operator@Demo.com ''" and pw = "''secret1''"]
    signup_rejections [where cst = ctx_init and ce = "example_ctx_env 1700000000000"
      and nm = "''Jane''" and mail = "''jane@x.com''" and pw = "''abc''"]
  show ?thesis by blast
qed

text \<open>
  Claim C3 as stated fails in both implementations. The controller validates before it
  looks the account up: a signup for the existing \<^verbatim>\<open>operator@demo.com\<close> with a password
  of three characters gets the validation failure (400), not the duplicate one (409). The
  context accepts an empty name and a malformed email.
\<close>

theorem signup_order_of_checks:
  "find_user (users srv_init) (normalizeEmail ''operator@demo.com'') \<noteq> None \<and>
   signup srv_init (example_env 1700000000000)
       (Some ''Alex'') (Some ''operator@demo.com'') (Some ''abc'') =
     (srv_init, reply 400 False ''Password must be at least 6 characters'') \<and>
   \<not> emailRegex_test ''not-an-email'' \<and>
   r_success (snd (ctx_signup ctx_init (example_ctx_env 1700000000000) []
       ''not-an-email'' ''secret1''))"
proof -
  have "\<not> emailRegex_test ''not-an-email''" by code_simp
  then show ?thesis
    by (simp add: signup_def srv_init_def demo_users_def find_user_def ctx_signup_def
        ctx_init_def js_get_def js_set_def truthy_def DEMO_USERS_def Object_prototype_keys_def
        succeed_def more_examples ex_simps)
qed


section \<open>Login\<close>

lemma login_not_verified:
  "\<not> falsy email_field \<Longrightarrow> \<not> falsy password_field \<Longrightarrow>
   find_user (users st) (normalizeEmail (str email_field)) = Some u \<Longrightarrow> \<not> isVerified u \<Longrightarrow>
   login st e email_field password_field =
     (st, (reply 403 False ''Please verify your email before logging in'')
            \<lparr>requiresVerification := Some True\<rparr>)"
  by (simp add: login_def)

lemma login_ok:
  "\<not> falsy email_field \<Longrightarrow> \<not> falsy password_field \<Longrightarrow>
   find_user (users st) (normalizeEmail (str email_field)) = Some u \<Longrightarrow> isVerified u \<Longrightarrow>
   bcrypt_compare (str password_field) (password u) \<Longrightarrow>
   login st e email_field password_field =
     (st, (reply 200 True ''Login successful'')
            \<lparr>res_token := Some (jwt_sign (uid u) (email u) (role u) (JWT_SECRET e) (now e)),
             res_user := Some (rest_without ''password'' (user_props u))\<rparr>)"
  by (simp add: login_def)

lemma login_success_cases:
  assumes "success (snd (login st e email_field password_field))"
  obtains u where "\<not> falsy email_field" "\<not> falsy password_field"
    "find_user (users st) (normalizeEmail (str email_field)) = Some u" "isVerified u"
    "bcrypt_compare (str password_field) (password u)"
  using assms
  by (auto simp add: login_def reply_def Let_def split: if_splits option.splits)

lemma ctx_login_not_verified:
  "lookup_account st (normalizeEmail mail) = Own su \<Longrightarrow>
   user_isVerified (user su) = Some False \<Longrightarrow>
   ctx_login st e mail pw =
     (st, (fail ''Please verify your email before logging in'')
            \<lparr>r_requiresVerification := Some True\<rparr>)"
  by (simp add: ctx_login_def)

lemma ctx_login_ok:
  "lookup_account st (normalizeEmail mail) = Own su \<Longrightarrow>
   user_isVerified (user su) \<noteq> Some False \<Longrightarrow> hashPassword pw = hashedPassword su \<Longrightarrow>
   ctx_login st e mail pw =
     (st\<lparr>ls_user := Some (user su),
         ls_token := Some (generateToken (c_now e) (user_id (user su)) (user_role (user su))),
         ls_role := Some (user_role (user su)),
         state_user := Some (user su),
         state_token := Some (generateToken (c_now e) (user_id (user su))
                                (user_role (user su)))\<rparr>,
      succeed)"
  by (simp add: ctx_login_def Let_def)

lemma ctx_login_success_cases:
  assumes "r_success (snd (ctx_login st e mail pw))"
  obtains su where "lookup_account st (normalizeEmail mail) = Own su"
    "user_isVerified (user su) \<noteq> Some False" "hashPassword pw = hashedPassword su"
  using assms
  by (auto simp add: ctx_login_def fail_def Let_def split: if_splits property.splits)

text \<open>
  Claim C4 (verification gating). A login that carries an email and a password and whose
  normalised email finds an account is refused with the not-verified failure (403 in the
  controller) when the account is unverified, whatever the password is, so also when it
  is the right one; when the account is verified and the password is the right one, the
  login succeeds and issues a session token for the account's id and role. This holds for
  the controller and for the context.
\<close>

theorem login_verification_gating:
  "(\<not> falsy email_field \<and> \<not> falsy password_field \<and>
    find_user (users st) (normalizeEmail (str email_field)) = Some u \<and> \<not> isVerified u \<longrightarrow>
      login st e email_field password_field =
        (st, (reply 403 False ''Please verify your email before logging in'')
               \<lparr>requiresVerification := Some True\<rparr>)) \<and>
   (\<not> falsy email_field \<and> \<not> falsy password_field \<and>
    find_user (users st) (normalizeEmail (str email_field)) = Some u \<and> isVerified u \<and>
    bcrypt_compare (str password_field) (password u) \<longrightarrow>
      login st e email_field password_field =
        (st, (reply 200 True ''Login successful'')
               \<lparr>res_token := Some (jwt_sign (uid u) (email u) (role u) (JWT_SECRET e) (now e)),
                res_user := Some (rest_without ''password'' (user_props u))\<rparr>)) \<and>
   (lookup_account cst (normalizeEmail mail) = Own su \<and>
    user_isVerified (user su) = Some False \<longrightarrow>
      ctx_login cst ce mail pw =
        (cst, (fail ''Please verify your email before logging in'')
                \<lparr>r_requiresVerification := Some True\<rparr>)) \<and>
   (lookup_account cst (normalizeEmail mail) = Own su \<and>
    user_isVerified (user su) = Some True \<and> hashPassword pw = hashedPassword su \<longrightarrow>
      ctx_login cst ce mail pw =
        (cst\<lparr>ls_user := Some (user su),
             ls_token := Some (generateToken (c_now ce) (user_id (user su))
                                 (user_role (user su))),
             ls_role := Some (user_role (user su)),
             state_user := Some (user su),
             state_token := Some (generateToken (c_now ce) (user_id (user su))
                                    (user_role (user su)))\<rparr>,
         succeed))"
  apply (intro conjI impI)
  subgoal by (elim conjE) (simp add: login_not_verified)
  subgoal by (elim conjE) (simp add: login_ok)
  subgoal by (elim conjE) (simp add: ctx_login_not_verified)
  subgoal by (elim conjE) (simp add: ctx_login_ok)
  done


lemma find_manager:
  "find_user (users srv_init) (normalizeEmail (str (Some ''manager@demo.com''))) = Some srv_manager"
  by (simp add: srv_init_def demo_users_def find_user_def srv_manager_def more_examples ex_simps)

lemma find_jane:
  "find_user (users srv_signed_up) (normalizeEmail (str (Some ''jane@x.com''))) = Some jane"
  by (simp add: srv_signed_up_eq demo_users_def find_user_def jane_def ex_simps)

lemma lookup_manager:
  "lookup_account ctx_init (normalizeEmail ''manager@demo.com'') = Own ctx_manager"
  by (simp add: lookup_account_def js_get_def DEMO_USERS_def ctx_manager_def more_examples)

lemma lookup_jane:
  "lookup_account ctx_signed_up (normalizeEmail ''jane@x.com'') = Own ctx_jane"
  by (simp add: lookup_account_def js_get_def DEMO_USERS_def ctx_signed_up_eq ctx_init_def
      Object_prototype_keys_def ex_simps)

theorem login_verification_gating_witness:
  "bcrypt_compare ''secret1'' (password jane) \<and> \<not> isVerified jane \<and>
   login srv_signed_up (example_env 1700000001000) (Some ''jane@x.com'') (Some ''secret1'') =
     (srv_signed_up, (reply 403 False ''Please verify your email before logging in'')
                       \<lparr>requiresVerification := Some True\<rparr>) \<and>
   isVerified srv_manager \<and>
   success (snd (login srv_init (example_env 1700000001000)
                   (Some ''manager@demo.com'') (Some ''demo123''))) \<and>
   res_token (snd (login srv_init (example_env 1700000001000)
                     (Some ''manager@demo.com'') (Some ''demo123''))) =
     Some \<lparr>jwt_userId = ''2'', jwt_email = ''manager@demo.com'', jwt_role = ''manager'',
           jwt_iat = 1700000001, jwt_exp = 1700086401, jwt_key = ''fallback-secret-key''\<rparr> \<and>
   hashPassword ''secret1'' = hashedPassword ctx_jane \<and>
   ctx_login ctx_signed_up (example_ctx_env 1700000001000) ''jane@x.com'' ''secret1'' =
     (ctx_signed_up, (fail ''Please verify your email before logging in'')
                       \<lparr>r_requiresVerification := Some True\<rparr>) \<and>
   snd (ctx_login ctx_init (example_ctx_env 1700000001000) ''manager@demo.com'' ''demo123'') =
     succeed \<and>
   ls_token (fst (ctx_login ctx_init (example_ctx_env 1700000001000) ''manager@demo.com''
                    ''demo123'')) =
     Some \<lparr>s_userId = ''usr_mgr_001'', s_role = Manager, s_iat = 1700000001000,
           s_exp = 1700086401000\<rparr>"
proof -
  have h1: "\<not> falsy (Some ''jane@x.com'') \<and> \<not> falsy (Some ''secret1'') \<and>
      find_user (users srv_signed_up) (normalizeEmail (str (Some ''jane@x.com''))) = Some jane \<and>
      \<not> isVerified jane"
    by (simp add: find_jane) (simp add: jane_def falsy_def)
  have h2: "\<not> falsy (Some ''manager@demo.com'') \<and> \<not> falsy (Some ''demo123'') \<and>
      find_user (users srv_init) (normalizeEmail (str (Some ''manager@demo.com''))) =
        Some srv_manager \<and>
      isVerified srv_manager \<and> bcrypt_compare (str (Some ''demo123'')) (password srv_manager)"
    by (simp add: find_manager)
       (simp add: srv_manager_def falsy_def str_def bcrypt_compare_def bcrypt_hash_def)
  have h3: "lookup_account ctx_signed_up (normalizeEmail ''jane@x.com'') = Own ctx_jane \<and>
      user_isVerified (user ctx_jane) = Some False"
    by (simp add: lookup_jane) (simp add: ctx_jane_def)
  have h4: "lookup_account ctx_init (normalizeEmail ''manager@demo.com'') = Own ctx_manager \<and>
      user_isVerified (user ctx_manager) = Some True \<and>
      hashPassword ''demo123'' = hashedPassword ctx_manager"
    by (simp add: lookup_manager) (simp add: ctx_manager_def)
  have e1: "login srv_signed_up (example_env 1700000001000) (Some ''jane@x.com'')
        (Some ''secret1'') =
      (srv_signed_up, (reply 403 False ''Please verify your email before logging in'')
                        \<lparr>requiresVerification := Some True\<rparr>)"
    using h1 login_verification_gating [where st = srv_signed_up
        and e = "example_env 1700000001000" and email_field = "Some ''jane@x.com''"
        and password_field = "Some ''secret1''" and u = jane]
    by blast
  have e2: "login srv_init (example_env 1700000001000) (Some ''manager@demo.com'')
        (Some ''demo123'') =
      (srv_init, (reply 200 True ''Login successful'')
         \<lparr>res_token := Some (jwt_sign (uid srv_manager) (email srv_manager) (role srv_manager)
                               (JWT_SECRET (example_env 1700000001000))
                               (now (example_env 1700000001000))),
          res_user := Some (rest_without ''password'' (user_props srv_manager))\<rparr>)"
    using h2 login_verification_gating [where st = srv_init
        and e = "example_env 1700000001000" and email_field = "Some ''manager@demo.com''"
        and password_field = "Some ''demo123''" and u = srv_manager]
    by blast
  have e3: "ctx_login ctx_signed_up (example_ctx_env 1700000001000) ''jane@x.com'' ''secret1'' =
      (ctx_signed_up, (fail ''Please verify your email before logging in'')
                        \<lparr>r_requiresVerification := Some True\<rparr>)"
    using h3 login_verification_gating [where cst = ctx_signed_up
        and ce = "example_ctx_env 1700000001000" and mail = "''jane@x.com''"
        and pw = "''secret1''" and su = ctx_jane]
    by blast
  have e4: "ctx_login ctx_init (example_ctx_env 1700000001000) ''manager@demo.com''
        ''demo123'' =
      (ctx_init\<lparr>ls_user := Some (user ctx_manager),
         ls_token := Some (generateToken (c_now (example_ctx_env 1700000001000))
                             (user_id (user ctx_manager)) (user_role (user ctx_manager))),
         ls_role := Some (user_role (user ctx_manager)),
         state_user := Some (user ctx_manager),
         state_token := Some (generateToken (c_now (example_ctx_env 1700000001000))
                                (user_id (user ctx_manager)) (user_role (user ctx_manager)))\<rparr>,
       succeed)"
    using h4 login_verification_gating [where cst = ctx_init
        and ce = "example_ctx_env 1700000001000" and mail = "''manager@demo.com''"
        and pw = "''demo123''" and su = ctx_manager]
    by blast
  show ?thesis
    unfolding e1 e2 e3 e4
    by (simp add: reply_def jwt_sign_def generateToken_def example_env_def example_ctx_env_def
        srv_manager_def ctx_manager_def jane_def ctx_jane_def bcrypt_compare_def
        bcrypt_hash_def)
qed

section \<open>What a successful login returns\<close>

lemma rest_without_password:
  "rest_without ''password'' (user_props u) =
     [(''id'', JString (uid u)), (''email'', JString (email u)), (''name'', JString (name u)),
      (''role'', JString (role u)), (''department'', JString (department u)),
      (''title'', JString (title u)), (''isVerified'', JBool (isVerified u)),
      (''createdAt'', JString (createdAt u))]"
  by (simp add: rest_without_def user_props_def)

lemma rest_without_key: "key \<notin> fst ` set (rest_without key props)"
  by (auto simp add: rest_without_def)

lemma login_user_has_no_password:
  assumes "res_user (snd (login st e email_field password_field)) = Some props"
  shows "''password'' \<notin> fst ` set props"
proof -
  have "success (snd (login st e email_field password_field))"
    using assms
    by (auto simp add: login_def reply_def Let_def split: if_splits option.splits)
  then obtain u where "\<not> falsy email_field" "\<not> falsy password_field"
    "find_user (users st) (normalizeEmail (str email_field)) = Some u" "isVerified u"
    "bcrypt_compare (str password_field) (password u)"
    by (rule login_success_cases)
  then have "res_user (snd (login st e email_field password_field)) =
      Some (rest_without ''password'' (user_props u))"
    by (simp add: login_ok)
  with assms have "props = rest_without ''password'' (user_props u)" by simp
  then show ?thesis by (simp only: rest_without_key not_False_eq_True)
qed

text \<open>
  Claim C9. The \<^verbatim>\<open>user\<close> object of a successful login response of the controller is the
  account's object without its \<^verbatim>\<open>password\<close> property (which holds the digest): it has the
  other eight properties unchanged, and no response of \<^verbatim>\<open>login\<close> carries a user object with
  a \<^verbatim>\<open>password\<close> property. In the context a successful login returns only the success
  flag and persists, as the session user, the \<^verbatim>\<open>user\<close> part of the stored account, which is
  a \<^verbatim>\<open>User\<close> and has no field for the hash (the hash is the sibling field
  \<^verbatim>\<open>hashedPassword\<close> of the stored account).
\<close>

theorem login_response_omits_password:
  "(success (snd (login st e email_field password_field)) \<longrightarrow>
      (\<exists>u. find_user (users st) (normalizeEmail (str email_field)) = Some u \<and>
           map_of (user_props u) ''password'' = Some (JDigest (password u)) \<and>
           res_user (snd (login st e email_field password_field)) =
             Some (rest_without ''password'' (user_props u)) \<and>
           rest_without ''password'' (user_props u) =
             [(''id'', JString (uid u)), (''email'', JString (email u)),
              (''name'', JString (name u)), (''role'', JString (role u)),
              (''department'', JString (department u)), (''title'', JString (title u)),
              (''isVerified'', JBool (isVerified u)),
              (''createdAt'', JString (createdAt u))])) \<and>
   (\<forall>props. res_user (snd (login st e email_field password_field)) = Some props \<longrightarrow>
      ''password'' \<notin> fst ` set props) \<and>
   (r_success (snd (ctx_login cst ce mail pw)) \<longrightarrow>
      (\<exists>su. lookup_account cst (normalizeEmail mail) = Own su \<and>
            snd (ctx_login cst ce mail pw) = succeed \<and>
            ls_user (fst (ctx_login cst ce mail pw)) = Some (user su) \<and>
            state_user (fst (ctx_login cst ce mail pw)) = Some (user su)))"
proof (intro conjI impI allI)
  assume "success (snd (login st e email_field password_field))"
  then obtain u where h: "\<not> falsy email_field" "\<not> falsy password_field"
    "find_user (users st) (normalizeEmail (str email_field)) = Some u" "isVerified u"
    "bcrypt_compare (str password_field) (password u)"
    by (rule login_success_cases)
  have "map_of (user_props u) ''password'' = Some (JDigest (password u))"
    by (simp add: user_props_def)
  moreover have "res_user (snd (login st e email_field password_field)) =
      Some (rest_without ''password'' (user_props u))"
    by (simp add: login_ok [OF h])
  ultimately show "\<exists>u. find_user (users st) (normalizeEmail (str email_field)) = Some u \<and>
           map_of (user_props u) ''password'' = Some (JDigest (password u)) \<and>
           res_user (snd (login st e email_field password_field)) =
             Some (rest_without ''password'' (user_props u)) \<and>
           rest_without ''password'' (user_props u) =
             [(''id'', JString (uid u)), (''email'', JString (email u)),
              (''name'', JString (name u)), (''role'', JString (role u)),
              (''department'', JString (department u)), (''title'', JString (title u)),
              (''isVerified'', JBool (isVerified u)),
              (''createdAt'', JString (createdAt u))]"
    using h(3) rest_without_password by blast
next
  fix props
  assume "res_user (snd (login st e email_field password_field)) = Some props"
  then show "''password'' \<notin> fst ` set props" by (rule login_user_has_no_password)
next
  assume "r_success (snd (ctx_login cst ce mail pw))"
  then obtain su where h: "lookup_account cst (normalizeEmail mail) = Own su"
    "user_isVerified (user su) \<noteq> Some False" "hashPassword pw = hashedPassword su"
    by (rule ctx_login_success_cases)
  from ctx_login_ok [OF h]
  have "snd (ctx_login cst ce mail pw) = succeed \<and>
        ls_user (fst (ctx_login cst ce mail pw)) = Some (user su) \<and>
        state_user (fst (ctx_login cst ce mail pw)) = Some (user su)"
    by simp
  with h(1) show "\<exists>su. lookup_account cst (normalizeEmail mail) = Own su \<and>
            snd (ctx_login cst ce mail pw) = succeed \<and>
            ls_user (fst (ctx_login cst ce mail pw)) = Some (user su) \<and>
            state_user (fst (ctx_login cst ce mail pw)) = Some (user su)"
    by blast
qed


theorem login_response_omits_password_witness:
  "success (snd (login srv_init (example_env 1700000001000)
      (Some ''manager@demo.com'') (Some ''demo123''))) \<and>
   res_user (snd (login srv_init (example_env 1700000001000)
      (Some ''manager@demo.com'') (Some ''demo123''))) =
     Some [(''id'', JString ''2''), (''email'', JString ''manager@demo.com''),
           (''name'', JString ''Sarah Manager''), (''role'', JString ''manager''),
           (''department'', JString ''Management''), (''title'', JString ''Team Manager''),
           (''isVerified'', JBool True), (''createdAt'', JString ''2024-01-10T00:00:00.000Z'')] \<and>
   r_success (snd (ctx_login ctx_init (example_ctx_env 1700000001000)
      ''manager@demo.com'' ''demo123'')) \<and>
   ls_user (fst (ctx_login ctx_init (example_ctx_env 1700000001000)
      ''manager@demo.com'' ''demo123'')) = Some (user ctx_manager)"
proof -
  let ?r = "login srv_init (example_env 1700000001000) (Some ''manager@demo.com'')
      (Some ''demo123'')"
  let ?c = "ctx_login ctx_init (example_ctx_env 1700000001000) ''manager@demo.com'' ''demo123''"
  have "?r = (srv_init, (reply 200 True ''Login successful'')
         \<lparr>res_token := Some (jwt_sign (uid srv_manager) (email srv_manager) (role srv_manager)
                               (JWT_SECRET (example_env 1700000001000))
                               (now (example_env 1700000001000))),
          res_user := Some (rest_without ''password'' (user_props srv_manager))\<rparr>)"
    by (rule login_ok [OF _ _ find_manager])
       (simp_all add: srv_manager_def falsy_def str_def bcrypt_compare_def bcrypt_hash_def)
  then have s1: "success (snd ?r)" by (simp add: reply_def)
  have "?c = (ctx_init\<lparr>ls_user := Some (user ctx_manager),
         ls_token := Some (generateToken (c_now (example_ctx_env 1700000001000))
                             (user_id (user ctx_manager)) (user_role (user ctx_manager))),
         ls_role := Some (user_role (user ctx_manager)),
         state_user := Some (user ctx_manager),
         state_token := Some (generateToken (c_now (example_ctx_env 1700000001000))
                                (user_id (user ctx_manager)) (user_role (user ctx_manager)))\<rparr>,
       succeed)"
    by (rule ctx_login_ok [OF lookup_manager]) (simp_all add: ctx_manager_def)
  then have s2: "r_success (snd ?c)" by (simp add: succeed_def)
  from s1 login_response_omits_password [where st = srv_init
      and e = "example_env 1700000001000" and email_field = "Some ''manager@demo.com''"
      and password_field = "Some ''demo123''"]
  obtain u where u: "find_user (users srv_init)
        (normalizeEmail (str (Some ''manager@demo.com''))) = Some u"
    "res_user (snd ?r) = Some (rest_without ''password'' (user_props u))"
    "rest_without ''password'' (user_props u) =
       [(''id'', JString (uid u)), (''email'', JString (email u)), (''name'', JString (name u)),
        (''role'', JString (role u)), (''department'', JString (department u)),
        (''title'', JString (title u)), (''isVerified'', JBool (isVerified u)),
        (''createdAt'', JString (createdAt u))]"
    by blast
  from u(1) find_manager have um: "u = srv_manager" by simp
  from s2 login_response_omits_password [where cst = ctx_init
      and ce = "example_ctx_env 1700000001000" and mail = "''manager@demo.com''"
      and pw = "''demo123''"]
  obtain su where su: "lookup_account ctx_init (normalizeEmail ''manager@demo.com'') = Own su"
    "ls_user (fst ?c) = Some (user su)"
    by blast
  from su(1) lookup_manager have sm: "su = ctx_manager" by simp
  from s1 s2 u(2,3) su(2) show ?thesis
    unfolding um sm by (simp add: srv_manager_def)
qed

section \<open>A reset that changes no password\<close>

lemma update_first_no_match: "find P xs = None \<Longrightarrow> update_first P f xs = xs"
  by (induction xs) (auto split: if_splits)

lemma srv_clash_eq:
  "srv_clash =
     \<lparr>users = demo_users @ [jane\<lparr>email := ''reset_jane@x.com''\<rparr>],
      pendingVerifications =
        [''reset_jane@x.com'' \<mapsto>
           \<lparr>token = example_hex, expiry = 1700086400000,
            userId = ''usr_1700000000000_k3j9x2m1q''\<rparr>]\<rparr>"
  by (simp add: srv_clash_def signup_def srv_init_def find_user_def demo_users_def
      jane_def ex_simps)

lemma hashPassword_newpass1: "hashPassword ''newpass1'' \<noteq> hashPassword ''demo123''"
  by code_simp

text \<open>
  Claim C10. \<^verbatim>\<open>resetPassword\<close> answers with success although no password changes when a
  live, matching reset token exists for an email without an entry in the mutable user
  store: the update is skipped, the token is deleted, everything else stays as it was. In
  the context this is the case of every demo account (the example resets the password of
  \<^verbatim>\<open>operator@demo.com\<close>, after which the old password still logs in and the new one does
  not). In the controller the state arises when the verification entry of an account
  \<^verbatim>\<open>reset_jane@x.com\<close> is taken for the reset entry of \<^verbatim>\<open>jane@x.com\<close>.
\<close>

theorem resetPassword_without_account:
  "(passwordResetTokens cst (normalizeEmail mail) = Some stored \<and> rt_token stored = tok \<and>
    c_now ce \<le> rt_expiresAt stored \<and> 6 \<le> length newPassword \<and>
    registeredUsers cst (normalizeEmail mail) = None \<longrightarrow>
      ctx_resetPassword cst ce mail tok newPassword =
        (cst\<lparr>passwordResetTokens := js_delete (passwordResetTokens cst) (normalizeEmail mail)\<rparr>,
         succeed)) \<and>
   (\<not> falsy email_field \<and> \<not> falsy token_field \<and> 6 \<le> length (str newPassword_field) \<and>
    pendingVerifications st (''reset_'' @ normalizeEmail (str email_field)) = Some pend \<and>
    token pend = str token_field \<and> now e \<le> expiry pend \<and>
    find_user (users st) (normalizeEmail (str email_field)) = None \<longrightarrow>
      resetPassword st e email_field token_field newPassword_field =
        (st\<lparr>pendingVerifications :=
              (pendingVerifications st)(''reset_'' @ normalizeEmail (str email_field) := None)\<rparr>,
         reply 200 True ''Password has been reset successfully''))"
proof (intro conjI impI)
  assume "passwordResetTokens cst (normalizeEmail mail) = Some stored \<and> rt_token stored = tok \<and>
    c_now ce \<le> rt_expiresAt stored \<and> 6 \<le> length newPassword \<and>
    registeredUsers cst (normalizeEmail mail) = None"
  then have h: "passwordResetTokens cst (normalizeEmail mail) = Some stored"
    "rt_token stored = tok" "c_now ce \<le> rt_expiresAt stored" "6 \<le> length newPassword"
    and none: "registeredUsers cst (normalizeEmail mail) = None"
    by simp_all
  from ctx_resetPassword_ok [OF h] none
  show "ctx_resetPassword cst ce mail tok newPassword =
        (cst\<lparr>passwordResetTokens := js_delete (passwordResetTokens cst) (normalizeEmail mail)\<rparr>,
         succeed)"
    by simp
next
  assume "\<not> falsy email_field \<and> \<not> falsy token_field \<and> 6 \<le> length (str newPassword_field) \<and>
    pendingVerifications st (''reset_'' @ normalizeEmail (str email_field)) = Some pend \<and>
    token pend = str token_field \<and> now e \<le> expiry pend \<and>
    find_user (users st) (normalizeEmail (str email_field)) = None"
  then have h: "\<not> falsy email_field" "\<not> falsy token_field"
    "6 \<le> length (str newPassword_field)"
    "pendingVerifications st (''reset_'' @ normalizeEmail (str email_field)) = Some pend"
    "token pend = str token_field" "now e \<le> expiry pend"
    and none: "find_user (users st) (normalizeEmail (str email_field)) = None"
    by simp_all
  from none have "update_first (\<lambda>u. email u = normalizeEmail (str email_field))
      (\<lambda>u. u\<lparr>password := bcrypt_hash (str newPassword_field) 12\<rparr>) (users st) = users st"
    by (simp add: find_user_def update_first_no_match)
  with resetPassword_ok [OF h]
  show "resetPassword st e email_field token_field newPassword_field =
        (st\<lparr>pendingVerifications :=
              (pendingVerifications st)(''reset_'' @ normalizeEmail (str email_field) := None)\<rparr>,
         reply 200 True ''Password has been reset successfully'')"
    by simp
qed

theorem resetPassword_without_account_witness:
  "ctx_resetPassword ctx_reset_requested (example_ctx_env 1700000001000) ''operator@demo.com''
       example_b64 ''newpass1'' =
     (ctx_init, succeed) \<and>
   snd (ctx_login ctx_init (example_ctx_env 1700000002000) ''operator@demo.com'' ''newpass1'') =
     fail ''Incorrect password'' \<and>
   snd (ctx_login ctx_init (example_ctx_env 1700000002000) ''operator@demo.com'' ''demo123'') =
     succeed \<and>
   resetPassword srv_clash (example_env 1700000001000) (Some ''jane@x.com'') (Some example_hex)
       (Some ''newpass1'') =
     (srv_clash\<lparr>pendingVerifications := Map.empty\<rparr>,
      reply 200 True ''Password has been reset successfully'')"
proof -
  let ?CR = "\<lparr>rt_token = example_b64, rt_expiresAt = 1700003600000\<rparr>"
  let ?P = "\<lparr>token = example_hex, expiry = 1700086400000,
             userId = ''usr_1700000000000_k3j9x2m1q''\<rparr>"
  have h1: "passwordResetTokens ctx_reset_requested (normalizeEmail ''operator@demo.com'') =
        Some ?CR \<and>
      rt_token ?CR = example_b64 \<and> c_now (example_ctx_env 1700000001000) \<le> rt_expiresAt ?CR \<and>
      6 \<le> length ''newpass1'' \<and>
      registeredUsers ctx_reset_requested (normalizeEmail ''operator@demo.com'') = None"
    by (simp add: ctx_reset_requested_eq ctx_init_def ex_simps)
  have h2: "\<not> falsy (Some ''jane@x.com'') \<and> \<not> falsy (Some example_hex) \<and>
      6 \<le> length (str (Some ''newpass1'')) \<and>
      pendingVerifications srv_clash (''reset_'' @ normalizeEmail (str (Some ''jane@x.com''))) =
        Some ?P \<and>
      token ?P = str (Some example_hex) \<and> now (example_env 1700000001000) \<le> expiry ?P \<and>
      find_user (users srv_clash) (normalizeEmail (str (Some ''jane@x.com''))) = None"
    by (simp add: srv_clash_eq find_user_def demo_users_def jane_def ex_simps)
  have d1: "ctx_reset_requested\<lparr>passwordResetTokens :=
      js_delete (passwordResetTokens ctx_reset_requested)
        (normalizeEmail ''operator@demo.com'')\<rparr> = ctx_init"
    by (simp add: ctx_reset_requested_eq ctx_init_def js_delete_def ex_simps)
  have d2: "srv_clash\<lparr>pendingVerifications := (pendingVerifications srv_clash)
      (''reset_'' @ normalizeEmail (str (Some ''jane@x.com'')) := None)\<rparr> =
      srv_clash\<lparr>pendingVerifications := Map.empty\<rparr>"
    by (simp add: srv_clash_eq ex_simps)
  have e1: "ctx_resetPassword ctx_reset_requested (example_ctx_env 1700000001000)
        ''operator@demo.com'' example_b64 ''newpass1'' =
      (ctx_reset_requested\<lparr>passwordResetTokens :=
         js_delete (passwordResetTokens ctx_reset_requested)
           (normalizeEmail ''operator@demo.com'')\<rparr>, succeed)"
    using h1 resetPassword_without_account [where cst = ctx_reset_requested
        and ce = "example_ctx_env 1700000001000" and mail = "''operator@demo.com''"
        and tok = example_b64 and newPassword = "''newpass1''" and stored = ?CR]
    by blast
  have e2: "resetPassword srv_clash (example_env 1700000001000) (Some ''jane@x.com'')
        (Some example_hex) (Some ''newpass1'') =
      (srv_clash\<lparr>pendingVerifications := (pendingVerifications srv_clash)
         (''reset_'' @ normalizeEmail (str (Some ''jane@x.com'')) := None)\<rparr>,
       reply 200 True ''Password has been reset successfully'')"
    using h2 resetPassword_without_account [where st = srv_clash
        and e = "example_env 1700000001000" and email_field = "Some ''jane@x.com''"
        and token_field = "Some example_hex" and newPassword_field = "Some ''newpass1''"
        and pend = ?P]
    by blast
  have l1: "snd (ctx_login ctx_init (example_ctx_env 1700000002000) ''operator@demo.com''
      ''newpass1'') = fail ''Incorrect password''"
    by (simp add: ctx_login_def lookup_account_def js_get_def DEMO_USERS_def
        hashPassword_newpass1 ex_simps)
  have l2: "snd (ctx_login ctx_init (example_ctx_env 1700000002000) ''operator@demo.com''
      ''demo123'') = succeed"
    by (simp add: ctx_login_def lookup_account_def js_get_def DEMO_USERS_def ex_simps)
  show ?thesis
    unfolding e1 e2 d1 d2 l1 l2 by simp
qed

end
